theory Spec2Isabelle
  imports Main
begin

section \<open>The CertificateManager contract\<close>

text \<open>
  A shallow embedding of the Solidity contract \<open>CertificateManager\<close> (the one Solidity source
  of the repository). Conventions:

  \<^item> \<open>uint256\<close>, \<open>address\<close> and \<open>bytes32\<close> values are natural numbers; \<open>address(0)\<close> and
    \<open>bytes32(0)\<close> are \<open>0\<close>. Checked arithmetic reverts with \<open>Panic 17\<close> (Solidity's 0x11)
    when the result leaves the 256-bit range, \<open>unchecked\<close> arithmetic is written with
    \<open>mod 2 ^ 256\<close>.
  \<^item> A Solidity \<open>mapping\<close> is a total function (every key holds the zero value at first).
  \<^item> A call returns \<open>Inl error\<close> for a revert and \<open>Inr (state, legs)\<close> for success, where
    \<open>legs\<close> is the list of value transfers the call made, in order, each with the contract
    state that was in storage when the transfer was made.
  \<^item> Source names that start with an underscore are written with the prefix \<open>internal_\<close>;
    parameters that share a name with a struct field get a short name (\<open>cid\<close>, \<open>receipt\<close>).
  \<^item> The other contracts (\<open>CourseFactory\<close>, \<open>ProgressTracker\<close>, \<open>CourseLicense\<close>), the
    recipients of value transfers and the inherited ERC-1155 storage are not part of the
    source file; their answers are parameters of the model (record \<open>env\<close>). An external view
    call that reverts is the answer \<open>None\<close>.
  \<^item> A call is atomic. The callee of a value transfer observes the storage of that
    moment, but what it may do with the contract in return is not interleaved with the
    call: the three payable operations are \<open>nonReentrant\<close> and reject it, and they
    write nothing after their first transfer (section \<open>Effects before interactions\<close>).
  \<^item> Events are not modelled.
\<close>

type_synonym uint256 = nat
type_synonym address = nat
type_synonym bytes32 = nat

definition UINT256_RANGE :: nat where
  "UINT256_RANGE = 2 ^ 256"

subsection \<open>Errors\<close>

datatype error =
    InvalidPaymentReceiptHash
  | CertificateAlreadyExists
  | NoCertificateExists
  | CourseNotCompleted
  | CourseAlreadyInCertificate
  | InsufficientPayment
  | InvalidStringLength string uint256
  | InvalidAddress address
  | CertificateNotFound uint256
  | PaymentHashAlreadyUsed
  | ZeroAmount
  | EmptyCoursesArray
  | NoLicenseOwnership
  | ExceedsMaxPrice
  | CreatorPriceNotSet
  | RevertMsg string
  | Panic nat
  | EnforcedPause
  | ExpectedPause
  | ReentrancyGuardReentrantCall
  | OwnableUnauthorizedAccount address
  | OwnableInvalidOwner address
  | ERC1155InvalidReceiver address
  | ERC1155Reverted
  | ExternalCallReverted

subsection \<open>Storage\<close>

record Certificate =
  tokenId :: uint256
  platformName :: string
  recipientName :: string
  recipientAddress :: address
  lifetimeFlag :: bool
  isValid :: bool
  ipfsCID :: string
  baseRoute :: string
  issuedAt :: uint256
  lastUpdated :: uint256
  totalCoursesCompleted :: uint256
  paymentReceiptHash :: bytes32
  completedCourses :: "uint256 list"

definition zero_Certificate :: Certificate where
  "zero_Certificate = \<lparr> tokenId = 0, platformName = [], recipientName = [],
     recipientAddress = 0, lifetimeFlag = False, isValid = False, ipfsCID = [],
     baseRoute = [], issuedAt = 0, lastUpdated = 0, totalCoursesCompleted = 0,
     paymentReceiptHash = 0, completedCourses = [] \<rparr>"

text \<open>
  The state variables of the contract, followed by the state of the inherited
  \<open>Ownable\<close> (\<open>owner\<close>), \<open>Pausable\<close> (\<open>paused\<close>) and \<open>ReentrancyGuard\<close>
  (\<open>reentrancy_entered\<close>) base contracts.
\<close>

record contract_state =
  courseFactory :: address
  progressTracker :: address
  courseLicense :: address
  internal_nextTokenId :: uint256
  defaultCertificateFee :: uint256
  defaultCourseAdditionFee :: uint256
  platformWallet :: address
  defaultPlatformName :: string
  defaultBaseRoute :: string
  defaultMetadataBaseURI :: string
  certificates :: "uint256 \<Rightarrow> Certificate"
  userCertificates :: "address \<Rightarrow> uint256"
  usedPaymentHashes :: "bytes32 \<Rightarrow> bool"
  internal_tokenURIs :: "uint256 \<Rightarrow> string"
  certificateCourseExists :: "uint256 \<Rightarrow> uint256 \<Rightarrow> bool"
  courseCertificatePrices :: "uint256 \<Rightarrow> uint256"
  certificateCourseCompletionDate :: "uint256 \<Rightarrow> uint256 \<Rightarrow> uint256"
  owner :: address
  paused :: bool
  reentrancy_entered :: bool

definition MAX_CERTIFICATE_PRICE :: uint256 where
  "MAX_CERTIFICATE_PRICE = 2000000000000000"

subsection \<open>The transaction and the world outside the contract\<close>

record ctx =
  msg_sender :: address
  msg_value :: uint256
  block_timestamp :: uint256

text \<open>One value transfer: the storage the callee can observe, the callee and the amount.\<close>

record leg =
  leg_observed :: contract_state
  leg_to :: address
  leg_amount :: uint256

text \<open>
  The answers of the outside world during one call: the view functions of the three
  collaborating contracts (only the fields the contract reads), whether a low-level
  \<open>call{value: ...}("")\<close> succeeds (the callee sees the storage of that moment), and
  whether the inherited ERC-1155 bookkeeping (\<open>super._update\<close>) and the receiver's
  acceptance check succeed.
\<close>

record env =
  isCourseCompleted :: "address \<Rightarrow> uint256 \<Rightarrow> bool option"
  getLicense_courseId :: "address \<Rightarrow> uint256 \<Rightarrow> uint256 option"
  getCourse_creator :: "uint256 \<Rightarrow> address option"
  getCourseSections_length :: "uint256 \<Rightarrow> nat option"
  getSectionProgress_completedAt :: "address \<Rightarrow> uint256 \<Rightarrow> uint256 \<Rightarrow> uint256 option"
  call_value :: "contract_state \<Rightarrow> address \<Rightarrow> uint256 \<Rightarrow> bool"
  erc1155_super_update :: "address \<Rightarrow> address \<Rightarrow> uint256 list \<Rightarrow> uint256 list \<Rightarrow> bool"
  erc1155_acceptance :: "address \<Rightarrow> uint256 \<Rightarrow> bool"

type_synonym outcome = "error + contract_state \<times> leg list"

subsection \<open>Constructor\<close>

text \<open>
  The base constructors run first (\<open>Ownable(msg.sender)\<close> rejects the zero owner), then
  the body. State variables start at their declared initial values.
\<close>

definition constructor ::
  "address \<Rightarrow> address \<Rightarrow> address \<Rightarrow> address \<Rightarrow> address \<Rightarrow> string \<Rightarrow> string
     \<Rightarrow> error + contract_state" where
  "constructor deployer courseFactory_arg progressTracker_arg courseLicense_arg
       platformWallet_arg initialBaseRoute platformName_arg =
    (if deployer = 0 then Inl (OwnableInvalidOwner 0)
     else if courseFactory_arg = 0 then Inl (InvalidAddress courseFactory_arg)
     else if progressTracker_arg = 0 then Inl (InvalidAddress progressTracker_arg)
     else if courseLicense_arg = 0 then Inl (InvalidAddress courseLicense_arg)
     else if platformWallet_arg = 0 then Inl (InvalidAddress platformWallet_arg)
     else Inr \<lparr> courseFactory = courseFactory_arg,
                progressTracker = progressTracker_arg,
                courseLicense = courseLicense_arg,
                internal_nextTokenId = 1,
                defaultCertificateFee = 1000000000000000,
                defaultCourseAdditionFee = 100000000000000,
                platformWallet = platformWallet_arg,
                defaultPlatformName = platformName_arg,
                defaultBaseRoute = initialBaseRoute,
                defaultMetadataBaseURI = [],
                certificates = (\<lambda>_. zero_Certificate),
                userCertificates = (\<lambda>_. 0),
                usedPaymentHashes = (\<lambda>_. False),
                internal_tokenURIs = (\<lambda>_. []),
                certificateCourseExists = (\<lambda>_ _. False),
                courseCertificatePrices = (\<lambda>_. 0),
                certificateCourseCompletionDate = (\<lambda>_ _. 0),
                owner = deployer,
                paused = False,
                reentrancy_entered = False \<rparr>)"

subsection \<open>Modifiers\<close>

definition validStringLength ::
  "string \<Rightarrow> uint256 \<Rightarrow> string \<Rightarrow> (contract_state \<Rightarrow> outcome) \<Rightarrow> contract_state \<Rightarrow> outcome" where
  "validStringLength str maxLength paramName body s =
    (if length str = 0 \<or> length str > maxLength
     then Inl (InvalidStringLength paramName maxLength)
     else body s)"

text \<open>Inherited: \<open>ReentrancyGuard.nonReentrant\<close>, \<open>Pausable.whenNotPaused\<close>, \<open>Ownable.onlyOwner\<close>.\<close>

definition nonReentrant :: "(contract_state \<Rightarrow> outcome) \<Rightarrow> contract_state \<Rightarrow> outcome" where
  "nonReentrant body s =
    (if reentrancy_entered s then Inl ReentrancyGuardReentrantCall
     else case body (s\<lparr>reentrancy_entered := True\<rparr>) of
            Inl err \<Rightarrow> Inl err
          | Inr (s', legs) \<Rightarrow> Inr (s'\<lparr>reentrancy_entered := False\<rparr>, legs))"

definition whenNotPaused :: "(contract_state \<Rightarrow> outcome) \<Rightarrow> contract_state \<Rightarrow> outcome" where
  "whenNotPaused body s = (if paused s then Inl EnforcedPause else body s)"

definition onlyOwner :: "ctx \<Rightarrow> (contract_state \<Rightarrow> outcome) \<Rightarrow> contract_state \<Rightarrow> outcome" where
  "onlyOwner c body s =
    (if owner s \<noteq> msg_sender c then Inl (OwnableUnauthorizedAccount (msg_sender c))
     else body s)"

subsection \<open>Internal functions\<close>

definition internal_getCertificatePrice :: "contract_state \<Rightarrow> uint256 \<Rightarrow> uint256" where
  "internal_getCertificatePrice s courseId =
    (let creatorPrice = courseCertificatePrices s courseId in
     if creatorPrice > 0 then creatorPrice else defaultCertificateFee s)"

definition internal_exists :: "contract_state \<Rightarrow> uint256 \<Rightarrow> bool" where
  "internal_exists s tid \<longleftrightarrow> tid > 0 \<and> tid < internal_nextTokenId s"

text \<open>
  A low-level \<open>call{value: amount}("")\<close> followed by \<open>require(success, msg)\<close>, guarded by
  \<open>if (amount > 0)\<close> (for the refund: by \<open>if (msg.value > totalAmount)\<close>).
\<close>

definition send_if :: "env \<Rightarrow> contract_state \<Rightarrow> bool \<Rightarrow> address \<Rightarrow> uint256 \<Rightarrow> string
    \<Rightarrow> error + leg list" where
  "send_if e s guard dest amount msg =
    (if guard then
       (if call_value e s dest amount
        then Inr [\<lparr> leg_observed = s, leg_to = dest, leg_amount = amount \<rparr>]
        else Inl (RevertMsg msg))
     else Inr [])"

definition internal_processCertificatePayment ::
  "env \<Rightarrow> ctx \<Rightarrow> contract_state \<Rightarrow> address \<Rightarrow> uint256 \<Rightarrow> error + leg list" where
  "internal_processCertificatePayment e c s recipient totalAmount =
    (if totalAmount * 1000 \<ge> UINT256_RANGE then Inl (Panic 17)
     else
       let platformFee = (totalAmount * 1000) div 10000;
           creatorFee = totalAmount - platformFee in
       (case send_if e s (platformFee > 0) (platformWallet s) platformFee
              ''Platform fee transfer failed'' of
         Inl err \<Rightarrow> Inl err
       | Inr l1 \<Rightarrow>
       (case send_if e s (creatorFee > 0) recipient creatorFee ''Creator payment failed'' of
         Inl err \<Rightarrow> Inl err
       | Inr l2 \<Rightarrow>
       (case send_if e s (msg_value c > totalAmount) (msg_sender c)
              (msg_value c - totalAmount) ''Refund failed'' of
         Inl err \<Rightarrow> Inl err
       | Inr l3 \<Rightarrow> Inr (l1 @ l2 @ l3)))))"

definition internal_processPayment ::
  "env \<Rightarrow> ctx \<Rightarrow> contract_state \<Rightarrow> address \<Rightarrow> uint256 \<Rightarrow> error + leg list" where
  "internal_processPayment e c s recipient totalAmount =
    (if totalAmount * 200 \<ge> UINT256_RANGE then Inl (Panic 17)
     else
       let platformFee = (totalAmount * 200) div 10000;
           recipientFee = totalAmount - platformFee in
       (case send_if e s (platformFee > 0) (platformWallet s) platformFee
              ''Platform fee transfer failed'' of
         Inl err \<Rightarrow> Inl err
       | Inr l1 \<Rightarrow>
       (case send_if e s (recipientFee > 0) recipient recipientFee
              ''Recipient payment failed'' of
         Inl err \<Rightarrow> Inl err
       | Inr l2 \<Rightarrow>
       (case send_if e s (msg_value c > totalAmount) (msg_sender c)
              (msg_value c - totalAmount) ''Refund failed'' of
         Inl err \<Rightarrow> Inl err
       | Inr l3 \<Rightarrow> Inr (l1 @ l2 @ l3)))))"

text \<open>
  The soulbound override of the ERC-1155 transfer hook. \<open>super._update\<close> is the inherited
  bookkeeping of balances, which lives outside the modelled storage.
\<close>

definition internal_update ::
  "env \<Rightarrow> address \<Rightarrow> address \<Rightarrow> uint256 list \<Rightarrow> uint256 list \<Rightarrow> error + unit" where
  "internal_update e from_addr to_addr ids vals =
    (if from_addr \<noteq> 0 \<and> to_addr \<noteq> 0 then Inl (RevertMsg ''Certificates are soulbound'')
     else if erc1155_super_update e from_addr to_addr ids vals then Inr ()
     else Inl ERC1155Reverted)"

text \<open>
  Inherited \<open>ERC1155._mint\<close>: rejects the zero receiver, runs the hook \<open>_update\<close> from the
  zero address, then asks the receiver to accept the token.
\<close>

definition internal_mint :: "env \<Rightarrow> address \<Rightarrow> uint256 \<Rightarrow> uint256 \<Rightarrow> error + unit" where
  "internal_mint e to_addr tid amount =
    (if to_addr = 0 then Inl (ERC1155InvalidReceiver 0)
     else case internal_update e 0 to_addr [tid] [amount] of
            Inl err \<Rightarrow> Inl err
          | Inr _ \<Rightarrow> if erc1155_acceptance e to_addr tid then Inr ()
                     else Inl (ERC1155InvalidReceiver to_addr))"

definition internal_mintFirstCertificate ::
  "env \<Rightarrow> ctx \<Rightarrow> uint256 \<Rightarrow> string \<Rightarrow> string \<Rightarrow> bytes32 \<Rightarrow> string \<Rightarrow> contract_state \<Rightarrow> outcome" where
  "internal_mintFirstCertificate e c courseId name cid receipt route =
    validStringLength name 100 ''recipientName'' (\<lambda>s.
      if userCertificates s (msg_sender c) \<noteq> 0 then Inl CertificateAlreadyExists
      else
        let certificatePrice = internal_getCertificatePrice s courseId in
        if msg_value c < certificatePrice then Inl InsufficientPayment
        else if internal_nextTokenId s + 1 \<ge> UINT256_RANGE then Inl (Panic 17)
        else
          let tid = internal_nextTokenId s;
              s1 = s\<lparr> internal_nextTokenId := internal_nextTokenId s + 1 \<rparr>;
              s2 = s1\<lparr> usedPaymentHashes := (usedPaymentHashes s1)(receipt := True) \<rparr>;
              initialCourses = [courseId];
              s3 = s2\<lparr> certificates := (certificates s2)(tid :=
                     \<lparr> tokenId = tid,
                       platformName = defaultPlatformName s2,
                       recipientName = name,
                       recipientAddress = msg_sender c,
                       lifetimeFlag = True,
                       isValid = True,
                       ipfsCID = cid,
                       baseRoute = route,
                       issuedAt = block_timestamp c,
                       lastUpdated = block_timestamp c,
                       totalCoursesCompleted = 1,
                       paymentReceiptHash = receipt,
                       completedCourses = initialCourses \<rparr>) \<rparr>;
              s4 = s3\<lparr> userCertificates := (userCertificates s3)(msg_sender c := tid) \<rparr>;
              s5 = s4\<lparr> certificateCourseExists := (certificateCourseExists s4)
                     (tid := (certificateCourseExists s4 tid)(courseId := True)) \<rparr>
          in
          (case internal_mint e (msg_sender c) tid 1 of
            Inl err \<Rightarrow> Inl err
          | Inr _ \<Rightarrow>
          (case getCourse_creator e courseId of
            None \<Rightarrow> Inl ExternalCallReverted
          | Some creator \<Rightarrow>
          (case internal_processCertificatePayment e c s5 creator certificatePrice of
            Inl err \<Rightarrow> Inl err
          | Inr legs \<Rightarrow> Inr (s5, legs)))))"

definition internal_addCourseToExistingCertificate ::
  "env \<Rightarrow> ctx \<Rightarrow> uint256 \<Rightarrow> uint256 \<Rightarrow> string \<Rightarrow> bytes32 \<Rightarrow> contract_state \<Rightarrow> outcome" where
  "internal_addCourseToExistingCertificate e c tid courseId cid receipt s =
    (let additionPrice = internal_getCertificatePrice s courseId in
     if msg_value c < additionPrice then Inl InsufficientPayment
     else
       let cert = certificates s tid in
       if recipientAddress cert \<noteq> msg_sender c then Inl (CertificateNotFound tid)
       else if \<not> isValid cert then Inl (CertificateNotFound tid)
       else if certificateCourseExists s tid courseId then Inl CourseAlreadyInCertificate
       else
         let s1 = s\<lparr> usedPaymentHashes := (usedPaymentHashes s)(receipt := True) \<rparr>;
             s2 = s1\<lparr> certificates := (certificates s1)(tid := (certificates s1 tid)
                    \<lparr> completedCourses := completedCourses (certificates s1 tid) @ [courseId],
                      totalCoursesCompleted :=
                        (totalCoursesCompleted (certificates s1 tid) + 1) mod UINT256_RANGE,
                      lastUpdated := block_timestamp c,
                      ipfsCID := cid,
                      paymentReceiptHash := receipt \<rparr>) \<rparr>;
             s3 = s2\<lparr> certificateCourseExists := (certificateCourseExists s2)
                    (tid := (certificateCourseExists s2 tid)(courseId := True)) \<rparr>
         in
         (case getCourseSections_length e courseId of
           None \<Rightarrow> Inl ExternalCallReverted
         | Some sections_length \<Rightarrow>
         (case (if sections_length > 0 then
                 (case getSectionProgress_completedAt e (msg_sender c) courseId
                         (sections_length - 1) of
                    None \<Rightarrow> Inl ExternalCallReverted
                  | Some completedAt \<Rightarrow>
                      Inr (s3\<lparr> certificateCourseCompletionDate :=
                             (certificateCourseCompletionDate s3)
                               (tid := (certificateCourseCompletionDate s3 tid)
                                  (courseId := completedAt)) \<rparr>))
               else Inr s3) of
           Inl err \<Rightarrow> Inl err
         | Inr s4 \<Rightarrow>
         (case getCourse_creator e courseId of
           None \<Rightarrow> Inl ExternalCallReverted
         | Some creator \<Rightarrow>
         (case internal_processPayment e c s4 creator additionPrice of
           Inl err \<Rightarrow> Inl err
         | Inr legs \<Rightarrow> Inr (s4, legs))))))"

subsection \<open>The three payable operations\<close>

definition mintOrUpdateCertificate ::
  "env \<Rightarrow> ctx \<Rightarrow> uint256 \<Rightarrow> string \<Rightarrow> string \<Rightarrow> bytes32 \<Rightarrow> string \<Rightarrow> contract_state \<Rightarrow> outcome" where
  "mintOrUpdateCertificate e c courseId name cid receipt route =
    nonReentrant (whenNotPaused (validStringLength cid 2000 ''ipfsCID'' (\<lambda>s.
      if receipt = 0 then Inl InvalidPaymentReceiptHash
      else if usedPaymentHashes s receipt then Inl PaymentHashAlreadyUsed
      else
        (case isCourseCompleted e (msg_sender c) courseId of
          None \<Rightarrow> Inl ExternalCallReverted
        | Some completed \<Rightarrow>
        if \<not> completed then Inl CourseNotCompleted
        else
          (case getLicense_courseId e (msg_sender c) courseId of
            None \<Rightarrow> Inl ExternalCallReverted
          | Some license_courseId \<Rightarrow>
          if license_courseId = 0 then Inl NoLicenseOwnership
          else
            let existingTokenId = userCertificates s (msg_sender c) in
            if existingTokenId = 0
            then internal_mintFirstCertificate e c courseId name cid receipt route s
            else internal_addCourseToExistingCertificate e c existingTokenId courseId
                   cid receipt s)))))"

definition updateCertificate ::
  "env \<Rightarrow> ctx \<Rightarrow> uint256 \<Rightarrow> string \<Rightarrow> bytes32 \<Rightarrow> contract_state \<Rightarrow> outcome" where
  "updateCertificate e c tid newIpfsCID receipt =
    nonReentrant (whenNotPaused (validStringLength newIpfsCID 2000 ''newIpfsCID'' (\<lambda>s.
      if receipt = 0 then Inl InvalidPaymentReceiptHash
      else if usedPaymentHashes s receipt then Inl PaymentHashAlreadyUsed
      else if \<not> internal_exists s tid then Inl (CertificateNotFound tid)
      else if msg_value c < defaultCourseAdditionFee s then Inl InsufficientPayment
      else
        let cert = certificates s tid in
        if \<not> isValid cert then Inl (CertificateNotFound tid)
        else if recipientAddress cert \<noteq> msg_sender c
        then Inl (RevertMsg ''Only certificate owner can update'')
        else
          let s1 = s\<lparr> usedPaymentHashes := (usedPaymentHashes s)(receipt := True) \<rparr>;
              s2 = s1\<lparr> certificates := (certificates s1)(tid := (certificates s1 tid)
                     \<lparr> ipfsCID := newIpfsCID,
                       paymentReceiptHash := receipt,
                       lastUpdated := block_timestamp c \<rparr>) \<rparr>
          in
          (case internal_processCertificatePayment e c s2 (platformWallet s2)
                 (defaultCourseAdditionFee s2) of
            Inl err \<Rightarrow> Inl err
          | Inr legs \<Rightarrow> Inr (s2, legs)))))"

text \<open>The two loops of the batch operation: validation of every course, then the appends.\<close>

fun validate_courses ::
  "env \<Rightarrow> ctx \<Rightarrow> contract_state \<Rightarrow> uint256 \<Rightarrow> uint256 list \<Rightarrow> error + unit" where
  "validate_courses e c s tid [] = Inr ()"
| "validate_courses e c s tid (courseId # rest) =
    (case isCourseCompleted e (msg_sender c) courseId of
       None \<Rightarrow> Inl ExternalCallReverted
     | Some completed \<Rightarrow>
         if \<not> completed then Inl CourseNotCompleted
         else if certificateCourseExists s tid courseId then Inl CourseAlreadyInCertificate
         else validate_courses e c s tid rest)"

fun add_all_courses :: "uint256 \<Rightarrow> uint256 list \<Rightarrow> contract_state \<Rightarrow> contract_state" where
  "add_all_courses tid [] s = s"
| "add_all_courses tid (courseId # rest) s =
    add_all_courses tid rest
      (s\<lparr> certificates := (certificates s)(tid := (certificates s tid)
             \<lparr> completedCourses := completedCourses (certificates s tid) @ [courseId] \<rparr>),
          certificateCourseExists := (certificateCourseExists s)
             (tid := (certificateCourseExists s tid)(courseId := True)) \<rparr>)"

definition addMultipleCoursesToCertificate ::
  "env \<Rightarrow> ctx \<Rightarrow> uint256 list \<Rightarrow> string \<Rightarrow> bytes32 \<Rightarrow> contract_state \<Rightarrow> outcome" where
  "addMultipleCoursesToCertificate e c courseIds cid receipt =
    nonReentrant (whenNotPaused (validStringLength cid 2000 ''ipfsCID'' (\<lambda>s.
      if length courseIds = 0 then Inl EmptyCoursesArray
      else if receipt = 0 then Inl InvalidPaymentReceiptHash
      else if usedPaymentHashes s receipt then Inl PaymentHashAlreadyUsed
      else
        let tid = userCertificates s (msg_sender c) in
        if tid = 0 then Inl NoCertificateExists
        else if \<not> isValid (certificates s tid) then Inl (CertificateNotFound tid)
        else
          let perCourseFee = defaultCourseAdditionFee s in
          if perCourseFee * length courseIds \<ge> UINT256_RANGE then Inl (Panic 17)
          else
            let totalFee = perCourseFee * length courseIds in
            if msg_value c < totalFee then Inl InsufficientPayment
            else
              (case validate_courses e c s tid courseIds of
                Inl err \<Rightarrow> Inl err
              | Inr _ \<Rightarrow>
                let s1 = s\<lparr> usedPaymentHashes := (usedPaymentHashes s)(receipt := True) \<rparr>;
                    s2 = add_all_courses tid courseIds s1;
                    s3 = s2\<lparr> certificates := (certificates s2)(tid := (certificates s2 tid)
                           \<lparr> totalCoursesCompleted :=
                               (totalCoursesCompleted (certificates s2 tid) + length courseIds)
                                 mod UINT256_RANGE,
                             lastUpdated := block_timestamp c,
                             ipfsCID := cid,
                             paymentReceiptHash := receipt \<rparr>) \<rparr>
                in
                (case internal_processCertificatePayment e c s3 (platformWallet s3) totalFee of
                  Inl err \<Rightarrow> Inl err
                | Inr legs \<Rightarrow> Inr (s3, legs))))))"

subsection \<open>View functions\<close>

definition getUserCertificate :: "contract_state \<Rightarrow> address \<Rightarrow> uint256" where
  "getUserCertificate s user = userCertificates s user"

definition getCertificateCompletedCourses :: "contract_state \<Rightarrow> uint256 \<Rightarrow> error + uint256 list" where
  "getCertificateCompletedCourses s tid =
    (if \<not> internal_exists s tid then Inl (CertificateNotFound tid)
     else Inr (completedCourses (certificates s tid)))"

definition isCourseInCertificate :: "contract_state \<Rightarrow> uint256 \<Rightarrow> uint256 \<Rightarrow> bool" where
  "isCourseInCertificate s tid courseId =
    (if \<not> internal_exists s tid then False else certificateCourseExists s tid courseId)"

subsection \<open>Administration\<close>

definition setDefaultCertificateFee :: "ctx \<Rightarrow> uint256 \<Rightarrow> contract_state \<Rightarrow> outcome" where
  "setDefaultCertificateFee c newFee =
    onlyOwner c (\<lambda>s.
      if newFee = 0 then Inl ZeroAmount
      else if newFee > MAX_CERTIFICATE_PRICE then Inl ExceedsMaxPrice
      else Inr (s\<lparr> defaultCertificateFee := newFee \<rparr>, []))"

definition setDefaultCourseAdditionFee :: "ctx \<Rightarrow> uint256 \<Rightarrow> contract_state \<Rightarrow> outcome" where
  "setDefaultCourseAdditionFee c newFee =
    onlyOwner c (\<lambda>s.
      if newFee = 0 then Inl ZeroAmount
      else if newFee > MAX_CERTIFICATE_PRICE then Inl ExceedsMaxPrice
      else Inr (s\<lparr> defaultCourseAdditionFee := newFee \<rparr>, []))"

definition setPlatformWallet :: "ctx \<Rightarrow> address \<Rightarrow> contract_state \<Rightarrow> outcome" where
  "setPlatformWallet c newWallet =
    onlyOwner c (\<lambda>s.
      if newWallet = 0 then Inl (InvalidAddress newWallet)
      else Inr (s\<lparr> platformWallet := newWallet \<rparr>, []))"

definition setDefaultPlatformName :: "ctx \<Rightarrow> string \<Rightarrow> contract_state \<Rightarrow> outcome" where
  "setDefaultPlatformName c newPlatformName =
    onlyOwner c (\<lambda>s.
      if length newPlatformName = 0 \<or> length newPlatformName > 100
      then Inl (InvalidStringLength ''platformName'' 100)
      else Inr (s\<lparr> defaultPlatformName := newPlatformName \<rparr>, []))"

definition setCourseCertificatePrice ::
  "env \<Rightarrow> ctx \<Rightarrow> uint256 \<Rightarrow> uint256 \<Rightarrow> contract_state \<Rightarrow> outcome" where
  "setCourseCertificatePrice e c courseId price s =
    (if price = 0 then Inl ZeroAmount
     else if price > MAX_CERTIFICATE_PRICE then Inl ExceedsMaxPrice
     else case getCourse_creator e courseId of
            None \<Rightarrow> Inl ExternalCallReverted
          | Some creator \<Rightarrow>
              if creator \<noteq> msg_sender c then Inl (RevertMsg ''Only course creator can set price'')
              else Inr (s\<lparr> courseCertificatePrices :=
                             (courseCertificatePrices s)(courseId := price) \<rparr>, []))"

definition setTokenURI :: "ctx \<Rightarrow> uint256 \<Rightarrow> string \<Rightarrow> contract_state \<Rightarrow> outcome" where
  "setTokenURI c tid tokenURI =
    onlyOwner c (\<lambda>s.
      if \<not> internal_exists s tid then Inl (CertificateNotFound tid)
      else Inr (s\<lparr> internal_tokenURIs := (internal_tokenURIs s)(tid := tokenURI) \<rparr>, []))"

definition updateBaseRoute :: "ctx \<Rightarrow> uint256 \<Rightarrow> string \<Rightarrow> contract_state \<Rightarrow> outcome" where
  "updateBaseRoute c tid newBaseRoute =
    onlyOwner c (validStringLength newBaseRoute 200 ''baseRoute'' (\<lambda>s.
      if \<not> internal_exists s tid then Inl (CertificateNotFound tid)
      else Inr (s\<lparr> certificates := (certificates s)(tid := (certificates s tid)
                      \<lparr> baseRoute := newBaseRoute, lastUpdated := block_timestamp c \<rparr>) \<rparr>, [])))"

definition updateDefaultBaseRoute :: "ctx \<Rightarrow> string \<Rightarrow> contract_state \<Rightarrow> outcome" where
  "updateDefaultBaseRoute c newBaseRoute =
    onlyOwner c (validStringLength newBaseRoute 200 ''baseRoute'' (\<lambda>s.
      Inr (s\<lparr> defaultBaseRoute := newBaseRoute \<rparr>, [])))"

definition updateDefaultMetadataBaseURI :: "ctx \<Rightarrow> string \<Rightarrow> contract_state \<Rightarrow> outcome" where
  "updateDefaultMetadataBaseURI c newBaseURI =
    onlyOwner c (\<lambda>s. Inr (s\<lparr> defaultMetadataBaseURI := newBaseURI \<rparr>, []))"

fun update_routes :: "ctx \<Rightarrow> string \<Rightarrow> uint256 list \<Rightarrow> contract_state \<Rightarrow> contract_state" where
  "update_routes c newBaseRoute [] s = s"
| "update_routes c newBaseRoute (tid # rest) s =
    update_routes c newBaseRoute rest
      (if internal_exists s tid
       then s\<lparr> certificates := (certificates s)(tid := (certificates s tid)
                 \<lparr> baseRoute := newBaseRoute, lastUpdated := block_timestamp c \<rparr>) \<rparr>
       else s)"

definition batchUpdateBaseRoute :: "ctx \<Rightarrow> uint256 list \<Rightarrow> string \<Rightarrow> contract_state \<Rightarrow> outcome" where
  "batchUpdateBaseRoute c tokenIds newBaseRoute =
    onlyOwner c (validStringLength newBaseRoute 200 ''baseRoute'' (\<lambda>s.
      if length tokenIds = 0 then Inl EmptyCoursesArray
      else Inr (update_routes c newBaseRoute tokenIds s, [])))"

definition revokeCertificate :: "ctx \<Rightarrow> uint256 \<Rightarrow> string \<Rightarrow> contract_state \<Rightarrow> outcome" where
  "revokeCertificate c tid reason =
    onlyOwner c (\<lambda>s.
      if \<not> internal_exists s tid then Inl (CertificateNotFound tid)
      else Inr (s\<lparr> certificates := (certificates s)(tid := (certificates s tid)
                      \<lparr> isValid := False \<rparr>) \<rparr>, []))"

text \<open>\<open>pause\<close> and \<open>unpause\<close> call the inherited \<open>_pause\<close> and \<open>_unpause\<close>.\<close>

definition pause :: "ctx \<Rightarrow> contract_state \<Rightarrow> outcome" where
  "pause c = onlyOwner c (whenNotPaused (\<lambda>s. Inr (s\<lparr> paused := True \<rparr>, [])))"

definition unpause :: "ctx \<Rightarrow> contract_state \<Rightarrow> outcome" where
  "unpause c =
    onlyOwner c (\<lambda>s. if \<not> paused s then Inl ExpectedPause else Inr (s\<lparr> paused := False \<rparr>, []))"

text \<open>Inherited from \<open>Ownable\<close>: the two public functions that change the owner.\<close>

definition transferOwnership :: "ctx \<Rightarrow> address \<Rightarrow> contract_state \<Rightarrow> outcome" where
  "transferOwnership c newOwner =
    onlyOwner c (\<lambda>s.
      if newOwner = 0 then Inl (OwnableInvalidOwner 0)
      else Inr (s\<lparr> owner := newOwner \<rparr>, []))"

definition renounceOwnership :: "ctx \<Rightarrow> contract_state \<Rightarrow> outcome" where
  "renounceOwnership c = onlyOwner c (\<lambda>s. Inr (s\<lparr> owner := 0 \<rparr>, []))"

text \<open>
  Inherited from \<open>ERC1155\<close>: every public transfer function moves tokens through the hook
  \<open>_update\<close> and writes none of the contract's own state variables.
\<close>

definition erc1155_transfer ::
  "env \<Rightarrow> address \<Rightarrow> address \<Rightarrow> uint256 list \<Rightarrow> uint256 list \<Rightarrow> contract_state \<Rightarrow> outcome" where
  "erc1155_transfer e from_addr to_addr ids vals s =
    (case internal_update e from_addr to_addr ids vals of
       Inl err \<Rightarrow> Inl err
     | Inr _ \<Rightarrow> Inr (s, []))"

subsection \<open>Transactions\<close>

datatype call =
    MintOrUpdateCertificate uint256 string string bytes32 string
  | UpdateCertificate uint256 string bytes32
  | AddMultipleCoursesToCertificate "uint256 list" string bytes32
  | SetDefaultCertificateFee uint256
  | SetDefaultCourseAdditionFee uint256
  | SetPlatformWallet address
  | SetDefaultPlatformName string
  | SetCourseCertificatePrice uint256 uint256
  | SetTokenURI uint256 string
  | UpdateBaseRoute uint256 string
  | UpdateDefaultBaseRoute string
  | UpdateDefaultMetadataBaseURI string
  | BatchUpdateBaseRoute "uint256 list" string
  | RevokeCertificate uint256 string
  | Pause
  | Unpause
  | TransferOwnership address
  | RenounceOwnership
  | Erc1155Transfer address address "uint256 list" "uint256 list"

fun exec :: "env \<Rightarrow> ctx \<Rightarrow> call \<Rightarrow> contract_state \<Rightarrow> outcome" where
  "exec e c (MintOrUpdateCertificate courseId name cid receipt route) s =
     mintOrUpdateCertificate e c courseId name cid receipt route s"
| "exec e c (UpdateCertificate tid cid receipt) s = updateCertificate e c tid cid receipt s"
| "exec e c (AddMultipleCoursesToCertificate courseIds cid receipt) s =
     addMultipleCoursesToCertificate e c courseIds cid receipt s"
| "exec e c (SetDefaultCertificateFee newFee) s = setDefaultCertificateFee c newFee s"
| "exec e c (SetDefaultCourseAdditionFee newFee) s = setDefaultCourseAdditionFee c newFee s"
| "exec e c (SetPlatformWallet newWallet) s = setPlatformWallet c newWallet s"
| "exec e c (SetDefaultPlatformName newName) s = setDefaultPlatformName c newName s"
| "exec e c (SetCourseCertificatePrice courseId price) s =
     setCourseCertificatePrice e c courseId price s"
| "exec e c (SetTokenURI tid tokenURI) s = setTokenURI c tid tokenURI s"
| "exec e c (UpdateBaseRoute tid route) s = updateBaseRoute c tid route s"
| "exec e c (UpdateDefaultBaseRoute route) s = updateDefaultBaseRoute c route s"
| "exec e c (UpdateDefaultMetadataBaseURI newBaseURI) s = updateDefaultMetadataBaseURI c newBaseURI s"
| "exec e c (BatchUpdateBaseRoute tokenIds route) s = batchUpdateBaseRoute c tokenIds route s"
| "exec e c (RevokeCertificate tid reason) s = revokeCertificate c tid reason s"
| "exec e c Pause s = pause c s"
| "exec e c Unpause s = unpause c s"
| "exec e c (TransferOwnership newOwner) s = transferOwnership c newOwner s"
| "exec e c RenounceOwnership s = renounceOwnership c s"
| "exec e c (Erc1155Transfer from_addr to_addr ids vals) s =
     erc1155_transfer e from_addr to_addr ids vals s"

text \<open>A transaction that reverts leaves the storage as it was.\<close>

definition transact :: "env \<Rightarrow> ctx \<Rightarrow> call \<Rightarrow> contract_state \<Rightarrow> contract_state" where
  "transact e c cl s = (case exec e c cl s of Inl _ \<Rightarrow> s | Inr (s', _) \<Rightarrow> s')"

definition succeeds :: "env \<Rightarrow> ctx \<Rightarrow> call \<Rightarrow> contract_state \<Rightarrow> bool" where
  "succeeds e c cl s = (case exec e c cl s of Inl _ \<Rightarrow> False | Inr _ \<Rightarrow> True)"

text \<open>The payment identifier a call presents, if it is one of the three payable operations.\<close>

fun presented_hash :: "call \<Rightarrow> bytes32 option" where
  "presented_hash (MintOrUpdateCertificate courseId name cid receipt route) = Some receipt"
| "presented_hash (UpdateCertificate tid cid receipt) = Some receipt"
| "presented_hash (AddMultipleCoursesToCertificate courseIds cid receipt) = Some receipt"
| "presented_hash _ = None"

text \<open>
  A history is a list of transactions, each with the answers of the outside world during
  it. \<open>run\<close> gives the storage after the history, \<open>consumptions\<close> counts its successful
  payable operations that presented the payment identifier \<open>x\<close>.
\<close>

type_synonym tx = "env \<times> ctx \<times> call"

fun run :: "tx list \<Rightarrow> contract_state \<Rightarrow> contract_state" where
  "run [] s = s"
| "run ((e, c, cl) # rest) s = run rest (transact e c cl s)"


text \<open>The states the contract can be in: after deployment and any history.\<close>

inductive reachable :: "contract_state \<Rightarrow> bool" where
  deployed: "constructor deployer cf pt cl pw route pname = Inr s \<Longrightarrow> reachable s"
| step: "reachable s \<Longrightarrow> exec e c cl s = Inr (s', legs) \<Longrightarrow> reachable s'"


section \<open>Specification vocabulary\<close>

text \<open>The transfers of a call as the outside world sees them: recipient and amount.\<close>

definition transfers :: "leg list \<Rightarrow> (address \<times> uint256) list" where
  "transfers legs = map (\<lambda>l. (leg_to l, leg_amount l)) legs"

definition legs_if :: "contract_state \<Rightarrow> bool \<Rightarrow> address \<Rightarrow> uint256 \<Rightarrow> leg list" where
  "legs_if s guard dest amount =
    (if guard then [\<lparr> leg_observed = s, leg_to = dest, leg_amount = amount \<rparr>] else [])"

text \<open>
  Settlement as the specification words it: the platform share is the floor of
  \<open>requiredAmount * feePercent / 100\<close>, the payee share is the rest of the required
  amount, and the payer is refunded what was attached beyond the required amount.
  A share of zero is not sent.
\<close>

definition platform_share :: "nat \<Rightarrow> uint256 \<Rightarrow> uint256" where
  "platform_share feePercent requiredAmount = requiredAmount * feePercent div 100"

definition payee_share :: "nat \<Rightarrow> uint256 \<Rightarrow> uint256" where
  "payee_share feePercent requiredAmount =
     requiredAmount - platform_share feePercent requiredAmount"

definition spec_settle ::
  "nat \<Rightarrow> contract_state \<Rightarrow> ctx \<Rightarrow> address \<Rightarrow> uint256 \<Rightarrow> leg list" where
  "spec_settle feePercent s c payee requiredAmount =
     legs_if s (0 < platform_share feePercent requiredAmount) (platformWallet s)
       (platform_share feePercent requiredAmount)
     @ legs_if s (0 < payee_share feePercent requiredAmount) payee
       (payee_share feePercent requiredAmount)
     @ legs_if s (requiredAmount < msg_value c) (msg_sender c)
       (msg_value c - requiredAmount)"

text \<open>
  The consistency of the ledger: identifiers start at 1; the map from principals to
  identifiers and the owner field of the records are inverse to each other; the zero payment
  identifier is never marked; the membership index agrees with the items of each record.
\<close>

definition ledger_inv :: "contract_state \<Rightarrow> bool" where
  "ledger_inv s \<longleftrightarrow>
     1 \<le> internal_nextTokenId s \<and>
     (\<forall>t. internal_exists s t \<longrightarrow> userCertificates s (recipientAddress (certificates s t)) = t) \<and>
     (\<forall>u. userCertificates s u \<noteq> 0 \<longrightarrow>
          internal_exists s (userCertificates s u) \<and>
          recipientAddress (certificates s (userCertificates s u)) = u) \<and>
     \<not> usedPaymentHashes s 0 \<and>
     (\<forall>t x. certificateCourseExists s t x \<longleftrightarrow>
          internal_exists s t \<and> x \<in> set (completedCourses (certificates s t)))"

text \<open>Two states with the same ledger: identifiers, owners, items, replay guard.\<close>

definition same_ledger :: "contract_state \<Rightarrow> contract_state \<Rightarrow> bool" where
  "same_ledger s s' \<longleftrightarrow>
     internal_nextTokenId s' = internal_nextTokenId s \<and>
     userCertificates s' = userCertificates s \<and>
     usedPaymentHashes s' = usedPaymentHashes s \<and>
     certificateCourseExists s' = certificateCourseExists s \<and>
     reentrancy_entered s' = reentrancy_entered s \<and>
     (\<forall>t. recipientAddress (certificates s' t) = recipientAddress (certificates s t) \<and>
          completedCourses (certificates s' t) = completedCourses (certificates s t) \<and>
          totalCoursesCompleted (certificates s' t) = totalCoursesCompleted (certificates s t))"


fun is_mintOrUpdate :: "call \<Rightarrow> bool" where
  "is_mintOrUpdate (MintOrUpdateCertificate courseId name cid receipt route) = True"
| "is_mintOrUpdate _ = False"

section \<open>A concrete deployment\<close>

text \<open>
  Deployer 100, treasury 200, learner 1000; the creator of course \<open>n\<close> is \<open>300 + n\<close>.
  The learner has completed every course but course 10 and has held a licence for each.
  Every transfer is accepted.
\<close>

definition demo_env :: env where
  "demo_env = \<lparr> isCourseCompleted = (\<lambda>user courseId. Some (courseId \<noteq> 10)),
                 getLicense_courseId = (\<lambda>user courseId. Some courseId),
                 getCourse_creator = (\<lambda>courseId. Some (300 + courseId)),
                 getCourseSections_length = (\<lambda>courseId. Some 3),
                 getSectionProgress_completedAt = (\<lambda>user courseId sectionId. Some 1700000000),
                 call_value = (\<lambda>s dest amount. True),
                 erc1155_super_update = (\<lambda>from_addr to_addr ids vals. True),
                 erc1155_acceptance = (\<lambda>to_addr tid. True) \<rparr>"

definition demo_ctx :: "address \<Rightarrow> uint256 \<Rightarrow> ctx" where
  "demo_ctx sender val = \<lparr> msg_sender = sender, msg_value = val, block_timestamp = 1750000000 \<rparr>"

definition demo_deployed :: contract_state where
  "demo_deployed = projr (constructor 100 101 102 103 200 ''/verify'' ''EduVerse Academy'')"

text \<open>Scenario A: the learner mints with course 5, payment identifier 11, paying 0.001 ether.\<close>

definition demo_minted :: contract_state where
  "demo_minted = transact demo_env (demo_ctx 1000 1000000000000000)
     (MintOrUpdateCertificate 5 ''Alice'' ''QmFirst'' 11 ''/verify'') demo_deployed"


section \<open>Settlement\<close>


lemma send_if_Inr:
  "send_if e s g d a m = Inr l \<longleftrightarrow> (g \<longrightarrow> call_value e s d a) \<and> l = legs_if s g d a"
  by (auto simp: send_if_def legs_if_def)

lemma cert_payment_legs:
  assumes "internal_processCertificatePayment e c s payee R = Inr legs"
  shows "legs = spec_settle 10 s c payee R"
proof -
  from assms show ?thesis
    unfolding internal_processCertificatePayment_def Let_def spec_settle_def
      platform_share_def payee_share_def
    by (simp add: send_if_Inr split: if_splits sum.splits)
qed

lemma payment_legs:
  assumes "internal_processPayment e c s payee R = Inr legs"
  shows "legs = spec_settle 2 s c payee R"
proof -
  from assms show ?thesis
    unfolding internal_processPayment_def Let_def spec_settle_def
      platform_share_def payee_share_def
    by (simp add: send_if_Inr split: if_splits sum.splits)
qed

lemma shares_add_up:
  "F \<le> 100 \<Longrightarrow> platform_share F R + payee_share F R = R"
proof -
  assume "F \<le> 100"
  then have "R * F \<le> R * 100" by simp
  then have "R * F div 100 \<le> R * 100 div 100" by (rule div_le_mono)
  then have "R * F div 100 \<le> R" by simp
  then show ?thesis by (simp add: platform_share_def payee_share_def)
qed

lemma spec_settle_total:
  "F \<le> 100 \<Longrightarrow> sum_list (map leg_amount (spec_settle F s c payee R)) = R + (msg_value c - R)"
  using shares_add_up [of F R]
  by (auto simp: spec_settle_def legs_if_def)

lemma spec_settle_observed:
  "l \<in> set (spec_settle F s c payee R) \<Longrightarrow> leg_observed l = s"
  by (auto simp: spec_settle_def legs_if_def split: if_splits)

text \<open>
  Claim C5. Every successful settlement with required amount \<open>R\<close> makes exactly the
  transfers the specification prescribes, at 10 percent in \<open>_processCertificatePayment\<close>
  and at 2 percent in \<open>_processPayment\<close>: the platform share \<open>\<lfloor>R * F / 100\<rfloor>\<close> and
  the payee share add up to \<open>R\<close>, the refund is the attached value beyond \<open>R\<close>, and the
  transfers together amount to \<open>R\<close> plus that refund.
\<close>

theorem settlement_conservation:
  "(internal_processCertificatePayment e c s payee R = Inr legs \<longrightarrow>
      legs = spec_settle 10 s c payee R) \<and>
   (internal_processPayment e c s payee R = Inr legs' \<longrightarrow>
      legs' = spec_settle 2 s c payee R) \<and>
   (F = 10 \<or> F = 2 \<longrightarrow>
      platform_share F R + payee_share F R = R \<and>
      sum_list (map leg_amount (spec_settle F s c payee R)) = R + (msg_value c - R))"
  using cert_payment_legs payment_legs shares_add_up [of F R] spec_settle_total [of F s c payee R]
  by auto



theorem settlement_conservation_witness:
  "internal_processCertificatePayment demo_env (demo_ctx 1000 1000000000000007) demo_deployed 305
       1000000000000000
     = Inr (spec_settle 10 demo_deployed (demo_ctx 1000 1000000000000007) 305 1000000000000000) \<and>
   internal_processPayment demo_env (demo_ctx 1000 1000000000000007) demo_deployed 305
       1000000000000000
     = Inr (spec_settle 2 demo_deployed (demo_ctx 1000 1000000000000007) 305 1000000000000000) \<and>
   transfers (spec_settle 10 demo_deployed (demo_ctx 1000 1000000000000007) 305 1000000000000000)
     = [(200, 100000000000000), (305, 900000000000000), (1000, 7)] \<and>
   transfers (spec_settle 2 demo_deployed (demo_ctx 1000 1000000000000007) 305 1000000000000000)
     = [(200, 20000000000000), (305, 980000000000000), (1000, 7)] \<and>
   platform_share 10 1000000000000000 + payee_share 10 1000000000000000 = 1000000000000000"
proof -
  let ?c = "demo_ctx 1000 1000000000000007"
  obtain l1 where l1: "internal_processCertificatePayment demo_env ?c demo_deployed 305
       1000000000000000 = Inr l1"
    by (simp add: internal_processCertificatePayment_def send_if_def demo_env_def demo_ctx_def
          UINT256_RANGE_def Let_def)
  obtain l2 where l2: "internal_processPayment demo_env ?c demo_deployed 305
       1000000000000000 = Inr l2"
    by (simp add: internal_processPayment_def send_if_def demo_env_def demo_ctx_def
          UINT256_RANGE_def Let_def)
  have t: "transfers (spec_settle 10 demo_deployed ?c 305 1000000000000000)
     = [(200, 100000000000000), (305, 900000000000000), (1000, 7)]"
    "transfers (spec_settle 2 demo_deployed ?c 305 1000000000000000)
     = [(200, 20000000000000), (305, 980000000000000), (1000, 7)]"
    by (simp_all add: spec_settle_def legs_if_def transfers_def platform_share_def payee_share_def
          demo_deployed_def constructor_def demo_ctx_def)
  note main = settlement_conservation [of demo_env ?c demo_deployed 305 1000000000000000 l1 l2 10]
  from main l1 have a: "l1 = spec_settle 10 demo_deployed ?c 305 1000000000000000" by blast
  from main l2 have b: "l2 = spec_settle 2 demo_deployed ?c 305 1000000000000000" by blast
  from main have d: "platform_share 10 1000000000000000 + payee_share 10 1000000000000000
      = (1000000000000000::nat)" by blast
  from l1 l2 a b d t show ?thesis by (simp only: simp_thms)
qed

subsection \<open>How a call succeeds\<close>

lemma nonReentrant_Inr:
  "nonReentrant body s = Inr (s', legs) \<longleftrightarrow>
     \<not> reentrancy_entered s \<and>
     (\<exists>s''. body (s\<lparr>reentrancy_entered := True\<rparr>) = Inr (s'', legs) \<and>
            s' = s''\<lparr>reentrancy_entered := False\<rparr>)"
  by (auto simp: nonReentrant_def split: sum.splits)

lemma whenNotPaused_Inr:
  "whenNotPaused body s = Inr r \<longleftrightarrow> \<not> paused s \<and> body s = Inr r"
  by (simp add: whenNotPaused_def)

lemma validStringLength_Inr:
  "validStringLength str n p body s = Inr r \<longleftrightarrow> 0 < length str \<and> length str \<le> n \<and> body s = Inr r"
  by (auto simp: validStringLength_def)

lemma onlyOwner_Inr:
  "onlyOwner c body s = Inr r \<longleftrightarrow> owner s = msg_sender c \<and> body s = Inr r"
  by (auto simp: onlyOwner_def)

lemma mintFirst_Inr:
  assumes "internal_mintFirstCertificate e c courseId name cid receipt route s = Inr (s', legs)"
  shows "userCertificates s (msg_sender c) = 0"
    and "0 < length name \<and> length name \<le> 100"
    and "internal_getCertificatePrice s courseId \<le> msg_value c"
    and "s' = s\<lparr> internal_nextTokenId := internal_nextTokenId s + 1,
                 usedPaymentHashes := (usedPaymentHashes s)(receipt := True),
                 certificates := (certificates s)(internal_nextTokenId s :=
                     \<lparr> tokenId = internal_nextTokenId s,
                       platformName = defaultPlatformName s,
                       recipientName = name,
                       recipientAddress = msg_sender c,
                       lifetimeFlag = True,
                       isValid = True,
                       ipfsCID = cid,
                       baseRoute = route,
                       issuedAt = block_timestamp c,
                       lastUpdated = block_timestamp c,
                       totalCoursesCompleted = 1,
                       paymentReceiptHash = receipt,
                       completedCourses = [courseId] \<rparr>),
                 userCertificates := (userCertificates s)(msg_sender c := internal_nextTokenId s),
                 certificateCourseExists := (certificateCourseExists s)
                     (internal_nextTokenId s :=
                        (certificateCourseExists s (internal_nextTokenId s))(courseId := True)) \<rparr>"
    and "\<exists>creator. internal_processCertificatePayment e c s' creator
            (internal_getCertificatePrice s courseId) = Inr legs"
  using assms unfolding internal_mintFirstCertificate_def validStringLength_def Let_def
  by (auto split: if_splits sum.splits option.splits)

lemma addCourse_Inr:
  assumes "internal_addCourseToExistingCertificate e c tid courseId cid receipt s = Inr (s', legs)"
  shows "recipientAddress (certificates s tid) = msg_sender c"
    and "isValid (certificates s tid)"
    and "\<not> certificateCourseExists s tid courseId"
    and "internal_getCertificatePrice s courseId \<le> msg_value c"
    and "s' = s\<lparr> usedPaymentHashes := (usedPaymentHashes s)(receipt := True),
                 certificates := (certificates s)(tid := (certificates s tid)
                    \<lparr> completedCourses := completedCourses (certificates s tid) @ [courseId],
                      totalCoursesCompleted :=
                        (totalCoursesCompleted (certificates s tid) + 1) mod UINT256_RANGE,
                      lastUpdated := block_timestamp c,
                      ipfsCID := cid,
                      paymentReceiptHash := receipt \<rparr>),
                 certificateCourseExists := (certificateCourseExists s)
                    (tid := (certificateCourseExists s tid)(courseId := True)),
                 certificateCourseCompletionDate := certificateCourseCompletionDate s' \<rparr>"
    and "\<exists>creator. internal_processPayment e c s' creator
            (internal_getCertificatePrice s courseId) = Inr legs"
  using assms unfolding internal_addCourseToExistingCertificate_def Let_def
  by (auto split: if_splits sum.splits option.splits)

lemma mintOrUpdate_Inr:
  assumes "mintOrUpdateCertificate e c courseId name cid receipt route s = Inr (s', legs)"
  shows "\<not> reentrancy_entered s" and "\<not> paused s" and "receipt \<noteq> 0"
    and "\<not> usedPaymentHashes s receipt"
    and "\<exists>s''. s' = s''\<lparr>reentrancy_entered := False\<rparr> \<and>
          (if userCertificates s (msg_sender c) = 0
           then internal_mintFirstCertificate e c courseId name cid receipt route
                  (s\<lparr>reentrancy_entered := True\<rparr>) = Inr (s'', legs)
           else internal_addCourseToExistingCertificate e c (userCertificates s (msg_sender c))
                  courseId cid receipt (s\<lparr>reentrancy_entered := True\<rparr>) = Inr (s'', legs))"
  using assms unfolding mintOrUpdateCertificate_def
  by (auto simp: nonReentrant_Inr whenNotPaused_Inr validStringLength_Inr Let_def
           split: if_splits option.splits)

lemma updateCertificate_Inr:
  assumes "updateCertificate e c tid cid receipt s = Inr (s', legs)"
  shows "\<not> reentrancy_entered s" and "\<not> paused s" and "receipt \<noteq> 0"
    and "\<not> usedPaymentHashes s receipt"
    and "internal_exists s tid"
    and "defaultCourseAdditionFee s \<le> msg_value c"
    and "isValid (certificates s tid)"
    and "recipientAddress (certificates s tid) = msg_sender c"
    and "s' = s\<lparr> usedPaymentHashes := (usedPaymentHashes s)(receipt := True),
                 certificates := (certificates s)(tid := (certificates s tid)
                     \<lparr> ipfsCID := cid,
                       paymentReceiptHash := receipt,
                       lastUpdated := block_timestamp c \<rparr>),
                 reentrancy_entered := False \<rparr>"
    and "internal_processCertificatePayment e c
           (s\<lparr> reentrancy_entered := True,
                usedPaymentHashes := (usedPaymentHashes s)(receipt := True),
                certificates := (certificates s)(tid := (certificates s tid)
                     \<lparr> ipfsCID := cid,
                       paymentReceiptHash := receipt,
                       lastUpdated := block_timestamp c \<rparr>) \<rparr>)
           (platformWallet s) (defaultCourseAdditionFee s) = Inr legs"
  using assms unfolding updateCertificate_def
  by (auto simp: nonReentrant_Inr whenNotPaused_Inr validStringLength_Inr Let_def internal_exists_def
           split: if_splits sum.splits)

lemma validate_courses_Inr:
  "validate_courses e c s tid cs = Inr u \<longleftrightarrow>
     (\<forall>x\<in>set cs. isCourseCompleted e (msg_sender c) x = Some True \<and>
                 \<not> certificateCourseExists s tid x)"
  by (induction cs) (auto split: option.splits)

lemma add_all_courses_closed:
  "add_all_courses tid cs s =
     s\<lparr> certificates := (certificates s)(tid := (certificates s tid)
            \<lparr> completedCourses := completedCourses (certificates s tid) @ cs \<rparr>),
        certificateCourseExists := (certificateCourseExists s)
            (tid := (\<lambda>x. x \<in> set cs \<or> certificateCourseExists s tid x)) \<rparr>"
proof (induction cs arbitrary: s)
  case Nil
  show ?case by (cases s) simp
next
  case (Cons x xs)
  show ?case by (cases s) (auto simp: Cons.IH fun_eq_iff)
qed

lemma addMultiple_Inr:
  assumes "addMultipleCoursesToCertificate e c courseIds cid receipt s = Inr (s', legs)"
  shows "\<not> reentrancy_entered s" and "\<not> paused s" and "receipt \<noteq> 0"
    and "\<not> usedPaymentHashes s receipt"
    and "courseIds \<noteq> []"
    and "userCertificates s (msg_sender c) \<noteq> 0"
    and "isValid (certificates s (userCertificates s (msg_sender c)))"
    and "defaultCourseAdditionFee s * length courseIds \<le> msg_value c"
    and "\<forall>x\<in>set courseIds. isCourseCompleted e (msg_sender c) x = Some True \<and>
            \<not> certificateCourseExists s (userCertificates s (msg_sender c)) x"
    and "s' = s\<lparr> usedPaymentHashes := (usedPaymentHashes s)(receipt := True),
                 certificates := (certificates s)(userCertificates s (msg_sender c) :=
                   (certificates s (userCertificates s (msg_sender c)))
                     \<lparr> completedCourses :=
                         completedCourses (certificates s (userCertificates s (msg_sender c)))
                           @ courseIds,
                       totalCoursesCompleted :=
                         (totalCoursesCompleted (certificates s (userCertificates s (msg_sender c)))
                            + length courseIds) mod UINT256_RANGE,
                       lastUpdated := block_timestamp c,
                       ipfsCID := cid,
                       paymentReceiptHash := receipt \<rparr>),
                 certificateCourseExists := (certificateCourseExists s)
                   (userCertificates s (msg_sender c) :=
                      (\<lambda>x. x \<in> set courseIds \<or>
                         certificateCourseExists s (userCertificates s (msg_sender c)) x)),
                 reentrancy_entered := False \<rparr>"
    and "\<exists>obs. internal_processCertificatePayment e c obs (platformWallet s)
           (defaultCourseAdditionFee s * length courseIds) = Inr legs \<and>
           reentrancy_entered obs \<and> s' = obs\<lparr>reentrancy_entered := False\<rparr>"
  using assms unfolding addMultipleCoursesToCertificate_def
  by (auto simp: nonReentrant_Inr whenNotPaused_Inr validStringLength_Inr Let_def
        validate_courses_Inr add_all_courses_closed
      split: if_splits sum.splits)



section \<open>Invariants of the ledger\<close>


lemma ledger_inv_entered [simp]:
  "ledger_inv (s\<lparr>reentrancy_entered := b\<rparr>) = ledger_inv s"
  by (simp add: ledger_inv_def internal_exists_def)

lemma inv_mintFirst:
  assumes inv: "ledger_inv s"
    and ok: "internal_mintFirstCertificate e c courseId name cid receipt route s = Inr (s', legs)"
    and nz: "receipt \<noteq> 0"
  shows "ledger_inv s'"
proof -
  note fresh = mintFirst_Inr(1) [OF ok]
  note post = mintFirst_Inr(4) [OF ok]
  from inv have n1: "1 \<le> internal_nextTokenId s"
    and i2: "\<And>t. internal_exists s t \<Longrightarrow> userCertificates s (recipientAddress (certificates s t)) = t"
    and i3: "\<And>u. userCertificates s u \<noteq> 0 \<Longrightarrow> internal_exists s (userCertificates s u) \<and>
                recipientAddress (certificates s (userCertificates s u)) = u"
    and i4: "\<not> usedPaymentHashes s 0"
    and i5: "\<And>t x. certificateCourseExists s t x \<longleftrightarrow>
                internal_exists s t \<and> x \<in> set (completedCourses (certificates s t))"
    by (simp_all add: ledger_inv_def)
  have a1: "1 \<le> internal_nextTokenId s'" using n1 by (simp add: post)
  have a2: "userCertificates s' (recipientAddress (certificates s' t)) = t"
    if "internal_exists s' t" for t
  proof (cases "t = internal_nextTokenId s")
    case True
    then show ?thesis by (simp add: post)
  next
    case False
    with that have ex: "internal_exists s t" by (simp add: post internal_exists_def)
    from i2 [OF ex] ex fresh have "recipientAddress (certificates s t) \<noteq> msg_sender c"
      by (auto simp: internal_exists_def)
    with i2 [OF ex] False show ?thesis by (simp add: post)
  qed
  have a3: "internal_exists s' (userCertificates s' u) \<and>
            recipientAddress (certificates s' (userCertificates s' u)) = u"
    if "userCertificates s' u \<noteq> 0" for u
  proof (cases "u = msg_sender c")
    case True
    with n1 show ?thesis by (simp add: post internal_exists_def)
  next
    case False
    with that have "userCertificates s u \<noteq> 0" by (simp add: post)
    from i3 [OF this] False show ?thesis by (auto simp: post internal_exists_def)
  qed
  have a4: "\<not> usedPaymentHashes s' 0" using i4 nz by (simp add: post)
  have a5: "certificateCourseExists s' t x \<longleftrightarrow>
              internal_exists s' t \<and> x \<in> set (completedCourses (certificates s' t))" for t x
    using i5 [of t x] i5 [of "internal_nextTokenId s" x] n1
    by (auto simp: post internal_exists_def)
  from a1 a2 a3 a4 a5 show ?thesis unfolding ledger_inv_def by blast
qed

lemma inv_addCourse:
  assumes inv: "ledger_inv s"
    and ok: "internal_addCourseToExistingCertificate e c tid courseId cid receipt s = Inr (s', legs)"
    and nz: "receipt \<noteq> 0"
    and ex: "internal_exists s tid"
  shows "ledger_inv s'"
proof -
  note post = addCourse_Inr(5) [OF ok]
  have f1: "internal_nextTokenId s' = internal_nextTokenId s"
    and f2: "userCertificates s' = userCertificates s"
    and f3: "usedPaymentHashes s' = (usedPaymentHashes s)(receipt := True)"
    and f4: "recipientAddress (certificates s' t) = recipientAddress (certificates s t)"
    and f5: "completedCourses (certificates s' t) =
               (if t = tid then completedCourses (certificates s t) @ [courseId]
                else completedCourses (certificates s t))"
    and f6: "certificateCourseExists s' t x =
               (if t = tid \<and> x = courseId then True else certificateCourseExists s t x)" for t x
    by (subst post, simp)+
  from inv ex show ?thesis
    unfolding ledger_inv_def internal_exists_def f1 f2 f3 f4 f5 f6 using nz
    by auto
qed


lemma same_ledger_inv: "same_ledger s s' \<Longrightarrow> ledger_inv s' = ledger_inv s"
  by (simp add: same_ledger_def ledger_inv_def internal_exists_def)

lemma update_routes_closed:
  "update_routes c r ts s =
     s\<lparr> certificates := (\<lambda>t. if t \<in> set ts \<and> internal_exists s t
                              then (certificates s t)\<lparr> baseRoute := r, lastUpdated := block_timestamp c \<rparr>
                              else certificates s t) \<rparr>"
proof (induction ts arbitrary: s)
  case Nil
  show ?case by (cases s) simp
next
  case (Cons x xs)
  show ?case by (cases s) (auto simp: Cons.IH fun_eq_iff internal_exists_def)
qed

lemma admin_frame:
  assumes "presented_hash cl = None" and "exec e c cl s = Inr (s', legs)"
  shows "same_ledger s s' \<and> legs = []"
  using assms
  by (cases cl)
     (auto simp: same_ledger_def onlyOwner_Inr validStringLength_Inr whenNotPaused_Inr
        setDefaultCertificateFee_def setDefaultCourseAdditionFee_def setPlatformWallet_def
        setDefaultPlatformName_def setCourseCertificatePrice_def setTokenURI_def
        updateBaseRoute_def updateDefaultBaseRoute_def updateDefaultMetadataBaseURI_def
        batchUpdateBaseRoute_def revokeCertificate_def pause_def unpause_def
        transferOwnership_def renounceOwnership_def erc1155_transfer_def update_routes_closed
      split: if_splits option.splits sum.splits)


lemma entered_restore:
  "reentrancy_entered a \<Longrightarrow> a\<lparr>reentrancy_entered := False, reentrancy_entered := True\<rparr> = a"
  by (cases a) simp

lemma mintOrUpdate_split:
  assumes ok: "mintOrUpdateCertificate e c courseId name cid receipt route s = Inr (s', legs)"
  obtains (mint) s'' where "userCertificates s (msg_sender c) = 0"
      and "s' = s''\<lparr>reentrancy_entered := False\<rparr>"
      and "internal_mintFirstCertificate e c courseId name cid receipt route
             (s\<lparr>reentrancy_entered := True\<rparr>) = Inr (s'', legs)"
    | (add) s'' where "userCertificates s (msg_sender c) \<noteq> 0"
      and "s' = s''\<lparr>reentrancy_entered := False\<rparr>"
      and "internal_addCourseToExistingCertificate e c (userCertificates s (msg_sender c))
             courseId cid receipt (s\<lparr>reentrancy_entered := True\<rparr>) = Inr (s'', legs)"
  using mintOrUpdate_Inr(5) [OF ok] by (auto split: if_splits)

lemma mintFirst_fields:
  assumes ok: "internal_mintFirstCertificate e c courseId name cid receipt route s = Inr (s', legs)"
  shows "internal_nextTokenId s' = internal_nextTokenId s + 1"
    and "usedPaymentHashes s' = (usedPaymentHashes s)(receipt := True)"
    and "userCertificates s' = (userCertificates s)(msg_sender c := internal_nextTokenId s)"
    and "t \<noteq> internal_nextTokenId s \<Longrightarrow> certificates s' t = certificates s t"
    and "recipientAddress (certificates s' (internal_nextTokenId s)) = msg_sender c"
    and "tokenId (certificates s' (internal_nextTokenId s)) = internal_nextTokenId s"
    and "reentrancy_entered s' = reentrancy_entered s"
  by (subst mintFirst_Inr(4) [OF ok], simp)+

lemma addCourse_fields:
  assumes ok: "internal_addCourseToExistingCertificate e c tid courseId cid receipt s = Inr (s', legs)"
  shows "internal_nextTokenId s' = internal_nextTokenId s"
    and "usedPaymentHashes s' = (usedPaymentHashes s)(receipt := True)"
    and "userCertificates s' = userCertificates s"
    and "recipientAddress (certificates s' t) = recipientAddress (certificates s t)"
    and "reentrancy_entered s' = reentrancy_entered s"
  by (subst addCourse_Inr(5) [OF ok], simp)+

lemma mintOrUpdate_effect:
  assumes ok: "mintOrUpdateCertificate e c courseId name cid receipt route s = Inr (s', legs)"
  shows "usedPaymentHashes s' = (usedPaymentHashes s)(receipt := True)"
    and "\<not> reentrancy_entered s'"
    and "ledger_inv s \<Longrightarrow> ledger_inv s'"
    and "internal_exists s t \<Longrightarrow>
           recipientAddress (certificates s' t) = recipientAddress (certificates s t)"
    and "userCertificates s (msg_sender c) \<noteq> 0 \<Longrightarrow>
           internal_nextTokenId s' = internal_nextTokenId s"
    and "userCertificates s (msg_sender c) = 0 \<Longrightarrow>
           internal_nextTokenId s' = internal_nextTokenId s + 1 \<and>
           userCertificates s' (msg_sender c) = internal_nextTokenId s \<and>
           recipientAddress (certificates s' (internal_nextTokenId s)) = msg_sender c \<and>
           tokenId (certificates s' (internal_nextTokenId s)) = internal_nextTokenId s"
proof -
  note nz = mintOrUpdate_Inr(3) [OF ok]
  show "usedPaymentHashes s' = (usedPaymentHashes s)(receipt := True)"
  using ok proof (cases rule: mintOrUpdate_split)
    case (mint s'')
    show ?thesis by (simp add: mint(2) mintFirst_fields [OF mint(3), simplified])
  next
    case (add s'')
    show ?thesis by (simp add: add(2) addCourse_fields [OF add(3), simplified])
  qed
  show "\<not> reentrancy_entered s'"
    using ok by (cases rule: mintOrUpdate_split) simp_all
  show "ledger_inv s'" if inv: "ledger_inv s"
  using ok proof (cases rule: mintOrUpdate_split)
    case (mint s'')
    from inv_mintFirst [OF _ mint(3) nz] inv show ?thesis by (simp add: mint(2))
  next
    case (add s'')
    from inv add(1) have "internal_exists s (userCertificates s (msg_sender c))"
      by (simp add: ledger_inv_def)
    then have "internal_exists (s\<lparr>reentrancy_entered := True\<rparr>) (userCertificates s (msg_sender c))"
      by (simp add: internal_exists_def)
    from inv_addCourse [OF _ add(3) nz this] inv show ?thesis by (simp add: add(2))
  qed
  show "recipientAddress (certificates s' t) = recipientAddress (certificates s t)"
    if ex: "internal_exists s t"
  using ok proof (cases rule: mintOrUpdate_split)
    case (mint s'')
    from ex have "t \<noteq> internal_nextTokenId s" by (simp add: internal_exists_def)
    then show ?thesis by (simp add: mint(2) mintFirst_fields [OF mint(3), simplified])
  next
    case (add s'')
    show ?thesis by (simp add: add(2) addCourse_fields [OF add(3), simplified])
  qed
  show "internal_nextTokenId s' = internal_nextTokenId s"
    if "userCertificates s (msg_sender c) \<noteq> 0"
  using ok proof (cases rule: mintOrUpdate_split)
    case (mint s'')
    with that show ?thesis by simp
  next
    case (add s'')
    show ?thesis by (simp add: add(2) addCourse_fields [OF add(3), simplified])
  qed
  show "internal_nextTokenId s' = internal_nextTokenId s + 1 \<and>
        userCertificates s' (msg_sender c) = internal_nextTokenId s \<and>
        recipientAddress (certificates s' (internal_nextTokenId s)) = msg_sender c \<and>
        tokenId (certificates s' (internal_nextTokenId s)) = internal_nextTokenId s"
    if "userCertificates s (msg_sender c) = 0"
  using ok proof (cases rule: mintOrUpdate_split)
    case (mint s'')
    show ?thesis by (simp add: mint(2) mintFirst_fields [OF mint(3), simplified])
  next
    case (add s'')
    with that show ?thesis by simp
  qed
qed

lemma mintOrUpdate_observed:
  assumes ok: "mintOrUpdateCertificate e c courseId name cid receipt route s = Inr (s', legs)"
    and l: "l \<in> set legs"
  shows "leg_observed l = s'\<lparr>reentrancy_entered := True\<rparr>"
  using ok proof (cases rule: mintOrUpdate_split)
  case (mint s'')
  have en: "reentrancy_entered s''" by (simp add: mintFirst_fields [OF mint(3), simplified])
  from mintFirst_Inr(5) [OF mint(3)] obtain creator where
    "internal_processCertificatePayment e c s'' creator
       (internal_getCertificatePrice (s\<lparr>reentrancy_entered := True\<rparr>) courseId) = Inr legs"
    by blast
  from cert_payment_legs [OF this] l have "leg_observed l = s''"
    by (simp add: spec_settle_observed)
  with en show ?thesis by (simp only: mint(2) entered_restore)
next
  case (add s'')
  have en: "reentrancy_entered s''" by (simp add: addCourse_fields [OF add(3), simplified])
  from addCourse_Inr(6) [OF add(3)] obtain creator where
    "internal_processPayment e c s'' creator
       (internal_getCertificatePrice (s\<lparr>reentrancy_entered := True\<rparr>) courseId) = Inr legs"
    by blast
  from payment_legs [OF this] l have "leg_observed l = s''"
    by (simp add: spec_settle_observed)
  with en show ?thesis by (simp only: add(2) entered_restore)
qed


lemma updateCertificate_fields:
  assumes ok: "updateCertificate e c tid cid receipt s = Inr (s', legs)"
  shows "internal_nextTokenId s' = internal_nextTokenId s"
    and "usedPaymentHashes s' = (usedPaymentHashes s)(receipt := True)"
    and "userCertificates s' = userCertificates s"
    and "certificateCourseExists s' = certificateCourseExists s"
    and "recipientAddress (certificates s' t) = recipientAddress (certificates s t)"
    and "completedCourses (certificates s' t) = completedCourses (certificates s t)"
    and "totalCoursesCompleted (certificates s' t) = totalCoursesCompleted (certificates s t)"
    and "\<not> reentrancy_entered s'"
  by (subst updateCertificate_Inr(9) [OF ok], simp)+

lemma updateCertificate_legs:
  assumes ok: "updateCertificate e c tid cid receipt s = Inr (s', legs)"
  shows "legs = spec_settle 10 (s'\<lparr>reentrancy_entered := True\<rparr>) c (platformWallet s)
                  (defaultCourseAdditionFee s)"
proof -
  have "s'\<lparr>reentrancy_entered := True\<rparr> =
          s\<lparr> reentrancy_entered := True,
             usedPaymentHashes := (usedPaymentHashes s)(receipt := True),
             certificates := (certificates s)(tid := (certificates s tid)
                     \<lparr> ipfsCID := cid,
                       paymentReceiptHash := receipt,
                       lastUpdated := block_timestamp c \<rparr>) \<rparr>"
    by (subst updateCertificate_Inr(9) [OF ok], cases s, simp)
  with cert_payment_legs [OF updateCertificate_Inr(10) [OF ok]] show ?thesis by simp
qed

lemma inv_updateCertificate:
  assumes ok: "updateCertificate e c tid cid receipt s = Inr (s', legs)"
    and inv: "ledger_inv s"
  shows "ledger_inv s'"
  using inv updateCertificate_Inr(3) [OF ok]
  unfolding ledger_inv_def internal_exists_def updateCertificate_fields [OF ok]
  by simp

lemma addMultiple_fields:
  assumes ok: "addMultipleCoursesToCertificate e c courseIds cid receipt s = Inr (s', legs)"
  shows "internal_nextTokenId s' = internal_nextTokenId s"
    and "usedPaymentHashes s' = (usedPaymentHashes s)(receipt := True)"
    and "userCertificates s' = userCertificates s"
    and "certificateCourseExists s' t x =
           (if t = userCertificates s (msg_sender c)
            then x \<in> set courseIds \<or> certificateCourseExists s t x
            else certificateCourseExists s t x)"
    and "recipientAddress (certificates s' t) = recipientAddress (certificates s t)"
    and "completedCourses (certificates s' t) =
           (if t = userCertificates s (msg_sender c)
            then completedCourses (certificates s t) @ courseIds
            else completedCourses (certificates s t))"
    and "\<not> reentrancy_entered s'"
  by (subst addMultiple_Inr(10) [OF ok], simp)+

lemma inv_addMultiple:
  assumes ok: "addMultipleCoursesToCertificate e c courseIds cid receipt s = Inr (s', legs)"
    and inv: "ledger_inv s"
  shows "ledger_inv s'"
proof -
  from inv addMultiple_Inr(6) [OF ok]
  have "internal_exists s (userCertificates s (msg_sender c))"
    by (simp add: ledger_inv_def)
  with inv addMultiple_Inr(3) [OF ok] show ?thesis
    unfolding ledger_inv_def internal_exists_def addMultiple_fields [OF ok]
    by auto
qed

lemma updateCertificate_observed:
  assumes ok: "updateCertificate e c tid cid receipt s = Inr (s', legs)"
    and l: "l \<in> set legs"
  shows "leg_observed l = s'\<lparr>reentrancy_entered := True\<rparr>"
  using l by (subst (asm) updateCertificate_legs [OF ok]) (rule spec_settle_observed)

lemma addMultiple_observed:
  assumes ok: "addMultipleCoursesToCertificate e c courseIds cid receipt s = Inr (s', legs)"
    and l: "l \<in> set legs"
  shows "leg_observed l = s'\<lparr>reentrancy_entered := True\<rparr>"
proof -
  from addMultiple_Inr(11) [OF ok] obtain obs where
    pay: "internal_processCertificatePayment e c obs (platformWallet s)
           (defaultCourseAdditionFee s * length courseIds) = Inr legs"
    and en: "reentrancy_entered obs" and s': "s' = obs\<lparr>reentrancy_entered := False\<rparr>"
    by blast
  from cert_payment_legs [OF pay] l have "leg_observed l = obs"
    by (simp add: spec_settle_observed)
  with en show ?thesis by (simp only: s' entered_restore)
qed



section \<open>Effects before interactions\<close>


lemmas demo_defs = demo_env_def demo_ctx_def demo_deployed_def constructor_def
  UINT256_RANGE_def Let_def

lemmas mint_defs = mintOrUpdateCertificate_def nonReentrant_def whenNotPaused_def
  validStringLength_def internal_mintFirstCertificate_def internal_getCertificatePrice_def
  internal_mint_def internal_update_def internal_processCertificatePayment_def send_if_def

lemma demo_mint_succeeds:
  "\<exists>s' legs. mintOrUpdateCertificate demo_env (demo_ctx 1000 1000000000000000) 5 ''Alice''
       ''QmFirst'' 11 ''/verify'' demo_deployed = Inr (s', legs) \<and>
     map leg_amount legs = [100000000000000, 900000000000000] \<and>
     map leg_to legs = [200, 305]"
  by (simp add: mint_defs demo_defs)

lemmas demo_minted_defs = demo_minted_def transact_def mint_defs demo_defs

text \<open>While a payable operation runs, a second call of any of the three is rejected.\<close>

lemma reentrant_call_rejected:
  assumes "reentrancy_entered s"
  shows "mintOrUpdateCertificate e c courseId name cid receipt route s
           = Inl ReentrancyGuardReentrantCall"
    and "updateCertificate e c tid cid receipt s = Inl ReentrancyGuardReentrantCall"
    and "addMultipleCoursesToCertificate e c courseIds cid receipt s
           = Inl ReentrancyGuardReentrantCall"
  using assms
  by (simp_all add: mintOrUpdateCertificate_def updateCertificate_def
        addMultipleCoursesToCertificate_def nonReentrant_def)

text \<open>
  Claim C4. In each of the three payable operations (mint and single append through
  \<open>mintOrUpdateCertificate\<close>, content refresh, batch append) every transfer leg is made on
  the final storage of the call: what the callee of a leg observes is the state the call
  ends in, with only the reentrancy flag still set. In particular the payment identifier
  is already marked as used and the record store already holds its final value.
\<close>

theorem effects_before_interactions:
  "(mintOrUpdateCertificate e c courseId name cid receipt route s = Inr (s', legs) \<longrightarrow>
      (\<forall>l\<in>set legs. leg_observed l = s'\<lparr>reentrancy_entered := True\<rparr> \<and>
         usedPaymentHashes (leg_observed l) receipt \<and>
         certificates (leg_observed l) = certificates s')) \<and>
   (updateCertificate e c tid cid receipt s = Inr (s', legs) \<longrightarrow>
      (\<forall>l\<in>set legs. leg_observed l = s'\<lparr>reentrancy_entered := True\<rparr> \<and>
         usedPaymentHashes (leg_observed l) receipt \<and>
         certificates (leg_observed l) = certificates s')) \<and>
   (addMultipleCoursesToCertificate e c courseIds cid receipt s = Inr (s', legs) \<longrightarrow>
      (\<forall>l\<in>set legs. leg_observed l = s'\<lparr>reentrancy_entered := True\<rparr> \<and>
         usedPaymentHashes (leg_observed l) receipt \<and>
         certificates (leg_observed l) = certificates s'))"
proof (intro conjI impI ballI)
  fix l assume ok: "mintOrUpdateCertificate e c courseId name cid receipt route s = Inr (s', legs)"
    and l: "l \<in> set legs"
  show "leg_observed l = s'\<lparr>reentrancy_entered := True\<rparr>"
    by (rule mintOrUpdate_observed [OF ok l])
  then show "usedPaymentHashes (leg_observed l) receipt"
    by (simp add: mintOrUpdate_effect(1) [OF ok])
  show "certificates (leg_observed l) = certificates s'"
    by (simp add: mintOrUpdate_observed [OF ok l])
next
  fix l assume ok: "updateCertificate e c tid cid receipt s = Inr (s', legs)"
    and l: "l \<in> set legs"
  show "leg_observed l = s'\<lparr>reentrancy_entered := True\<rparr>"
    by (rule updateCertificate_observed [OF ok l])
  then show "usedPaymentHashes (leg_observed l) receipt"
    by (simp add: updateCertificate_fields(2) [OF ok])
  show "certificates (leg_observed l) = certificates s'"
    by (simp add: updateCertificate_observed [OF ok l])
next
  fix l assume ok: "addMultipleCoursesToCertificate e c courseIds cid receipt s = Inr (s', legs)"
    and l: "l \<in> set legs"
  show "leg_observed l = s'\<lparr>reentrancy_entered := True\<rparr>"
    by (rule addMultiple_observed [OF ok l])
  then show "usedPaymentHashes (leg_observed l) receipt"
    by (simp add: addMultiple_fields(2) [OF ok])
  show "certificates (leg_observed l) = certificates s'"
    by (simp add: addMultiple_observed [OF ok l])
qed

theorem effects_before_interactions_witness:
  "fst (projr (mintOrUpdateCertificate demo_env (demo_ctx 1000 1000000000000000) 5 ''Alice''
       ''QmFirst'' 11 ''/verify'' demo_deployed)) = demo_minted \<and>
   map leg_amount (snd (projr (mintOrUpdateCertificate demo_env (demo_ctx 1000 1000000000000000)
       5 ''Alice'' ''QmFirst'' 11 ''/verify'' demo_deployed))) =
     [100000000000000, 900000000000000] \<and>
   map leg_observed (snd (projr (mintOrUpdateCertificate demo_env (demo_ctx 1000 1000000000000000)
       5 ''Alice'' ''QmFirst'' 11 ''/verify'' demo_deployed))) =
     [demo_minted\<lparr>reentrancy_entered := True\<rparr>, demo_minted\<lparr>reentrancy_entered := True\<rparr>] \<and>
   usedPaymentHashes (demo_minted\<lparr>reentrancy_entered := True\<rparr>) 11"
proof -
  let ?c = "demo_ctx 1000 1000000000000000"
  from demo_mint_succeeds obtain s' legs where
    ok: "mintOrUpdateCertificate demo_env ?c 5 ''Alice'' ''QmFirst'' 11 ''/verify'' demo_deployed
          = Inr (s', legs)"
    and am: "map leg_amount legs = [100000000000000, 900000000000000]"
    and to: "map leg_to legs = [200, 305]"
    by (elim exE conjE) (rule that)
  have dm: "demo_minted = s'" by (simp add: demo_minted_def transact_def ok)
  from am obtain l1 l2 where legs: "legs = [l1, l2]" by auto
  note main = effects_before_interactions [of demo_env ?c 5 "''Alice''" "''QmFirst''" 11
      "''/verify''" demo_deployed s' legs 0 "[]", THEN conjunct1, THEN mp, OF ok]
  have o1: "leg_observed l1 = s'\<lparr>reentrancy_entered := True\<rparr>"
    and o2: "leg_observed l2 = s'\<lparr>reentrancy_entered := True\<rparr>"
    using main by (simp_all add: legs)
  have u: "usedPaymentHashes (s'\<lparr>reentrancy_entered := True\<rparr>) 11"
    using main by (auto simp: legs)
  show ?thesis unfolding dm ok using am u o1 o2 by (simp add: legs)
qed



section \<open>Transactions and reachable states\<close>


subsection \<open>Every transaction\<close>

lemma payable_call:
  assumes "presented_hash cl = Some x"
  obtains (mintOrUpdate) courseId name cid route where
      "cl = MintOrUpdateCertificate courseId name cid x route"
    | (update) tid cid where "cl = UpdateCertificate tid cid x"
    | (batch) courseIds cid where "cl = AddMultipleCoursesToCertificate courseIds cid x"
  using assms by (cases cl) simp_all

lemma exec_inv:
  assumes ok: "exec e c cl s = Inr (s', legs)" and inv: "ledger_inv s"
  shows "ledger_inv s'"
proof (cases "presented_hash cl")
  case None
  from admin_frame [OF None ok] have "same_ledger s s'" by simp
  from same_ledger_inv [OF this] inv show ?thesis by simp
next
  case (Some x)
  then show ?thesis
  proof (cases rule: payable_call)
    case mintOrUpdate
    with ok inv show ?thesis by (simp add: mintOrUpdate_effect(3))
  next
    case update
    with ok inv show ?thesis by (simp add: inv_updateCertificate)
  next
    case batch
    with ok inv show ?thesis by (simp add: inv_addMultiple)
  qed
qed

lemma exec_entered:
  assumes ok: "exec e c cl s = Inr (s', legs)" and ne: "\<not> reentrancy_entered s"
  shows "\<not> reentrancy_entered s'"
proof (cases "presented_hash cl")
  case None
  from admin_frame [OF None ok] ne show ?thesis by (simp add: same_ledger_def)
next
  case (Some x)
  then show ?thesis
  proof (cases rule: payable_call)
    case mintOrUpdate
    with ok show ?thesis by (simp add: mintOrUpdate_effect(2))
  next
    case update
    with ok show ?thesis by (simp add: updateCertificate_fields(8))
  next
    case batch
    with ok show ?thesis by (simp add: addMultiple_fields(7))
  qed
qed




lemma exec_next:
  assumes ok: "exec e c cl s = Inr (s', legs)"
  shows "if is_mintOrUpdate cl \<and> userCertificates s (msg_sender c) = 0
         then internal_nextTokenId s' = internal_nextTokenId s + 1 \<and>
              userCertificates s' (msg_sender c) = internal_nextTokenId s \<and>
              recipientAddress (certificates s' (internal_nextTokenId s)) = msg_sender c \<and>
              tokenId (certificates s' (internal_nextTokenId s)) = internal_nextTokenId s
         else internal_nextTokenId s' = internal_nextTokenId s"
proof (cases "presented_hash cl")
  case None
  then have "\<not> is_mintOrUpdate cl" by (cases cl) simp_all
  with admin_frame [OF None ok] show ?thesis by (simp add: same_ledger_def)
next
  case (Some x)
  then show ?thesis
  proof (cases rule: payable_call)
    case (mintOrUpdate courseId name cid route)
    with ok have m: "mintOrUpdateCertificate e c courseId name cid x route s = Inr (s', legs)"
      by simp
    show ?thesis
      using mintOrUpdate_effect(5) [OF m] mintOrUpdate_effect(6) [OF m]
      by (simp add: mintOrUpdate)
  next
    case update
    with ok show ?thesis by (simp add: updateCertificate_fields(1))
  next
    case batch
    with ok show ?thesis by (simp add: addMultiple_fields(1))
  qed
qed


lemma exec_cases: "(\<exists>err. exec e c cl s = Inl err) \<or> (\<exists>s' legs. exec e c cl s = Inr (s', legs))"
  by (cases "exec e c cl s") auto

lemma transact_cases:
  obtains (reverted) err where "exec e c cl s = Inl err" and "transact e c cl s = s"
      and "\<not> succeeds e c cl s"
    | (applied) s' legs where "exec e c cl s = Inr (s', legs)" and "transact e c cl s = s'"
      and "succeeds e c cl s"
  by (cases "exec e c cl s") (auto simp: transact_def succeeds_def)







subsection \<open>Reachable states\<close>

lemma constructor_inv:
  assumes "constructor deployer cf pt cl pw route pname = Inr s"
  shows "ledger_inv s" and "\<not> reentrancy_entered s" and "internal_nextTokenId s = 1"
  using assms
  by (auto simp: constructor_def ledger_inv_def internal_exists_def zero_Certificate_def
      split: if_splits)

lemma reachable_inv: "reachable s \<Longrightarrow> ledger_inv s \<and> \<not> reentrancy_entered s"
proof (induction rule: reachable.induct)
  case (deployed deployer cf pt cl pw route pname s)
  then show ?case by (simp add: constructor_inv)
next
  case (step s e c cl s' legs)
  then show ?case by (simp add: exec_inv exec_entered)
qed

lemma reachable_transact: "reachable s \<Longrightarrow> reachable (transact e c cl s)"
  by (cases rule: transact_cases [of e c cl s]) (auto intro: reachable.step)

lemma reachable_run: "reachable s \<Longrightarrow> reachable (run txs s)"
  by (induction txs arbitrary: s) (auto simp: reachable_transact)




subsection \<open>The concrete deployment is reachable\<close>

lemma demo_deployed_constructed:
  "constructor 100 101 102 103 200 ''/verify'' ''EduVerse Academy'' = Inr demo_deployed"
  by (simp add: demo_deployed_def constructor_def)

lemma demo_deployed_reachable: "reachable demo_deployed"
  by (rule reachable.deployed [OF demo_deployed_constructed])

lemma demo_minted_exec:
  "\<exists>legs. exec demo_env (demo_ctx 1000 1000000000000000)
     (MintOrUpdateCertificate 5 ''Alice'' ''QmFirst'' 11 ''/verify'') demo_deployed
     = Inr (demo_minted, legs)"
proof -
  from demo_mint_succeeds obtain s' legs where
    ok: "mintOrUpdateCertificate demo_env (demo_ctx 1000 1000000000000000) 5 ''Alice''
          ''QmFirst'' 11 ''/verify'' demo_deployed = Inr (s', legs)"
    by (elim exE conjE) (rule that)
  then have "demo_minted = s'" by (simp add: demo_minted_def transact_def)
  with ok show ?thesis by simp
qed

lemma demo_minted_reachable: "reachable demo_minted"
proof -
  from demo_minted_exec obtain legs where
    "exec demo_env (demo_ctx 1000 1000000000000000)
       (MintOrUpdateCertificate 5 ''Alice'' ''QmFirst'' 11 ''/verify'') demo_deployed
       = Inr (demo_minted, legs)"
    by (elim exE) (rule that)
  from reachable.step [OF demo_deployed_reachable this] show ?thesis .
qed

lemma demo_minted_fields:
  "userCertificates demo_minted 1000 = 1"
  "internal_nextTokenId demo_minted = 2"
  "usedPaymentHashes demo_minted x = (x = 11)"
  "completedCourses (certificates demo_minted 1) = [5]"
  "totalCoursesCompleted (certificates demo_minted 1) = 1"
  "recipientAddress (certificates demo_minted 1) = 1000"
  "isValid (certificates demo_minted 1)"
  "certificateCourseExists demo_minted 1 y = (y = 5)"
  "courseCertificatePrices demo_minted y = 0"
  "defaultCertificateFee demo_minted = 1000000000000000"
  "defaultCourseAdditionFee demo_minted = 100000000000000"
  "platformWallet demo_minted = 200"
  "owner demo_minted = 100"
  "\<not> paused demo_minted"
  "\<not> reentrancy_entered demo_minted"
  by (simp_all add: demo_minted_defs)


lemmas payable_defs = mintOrUpdateCertificate_def updateCertificate_def
  addMultipleCoursesToCertificate_def nonReentrant_def whenNotPaused_def validStringLength_def
  internal_mintFirstCertificate_def internal_addCourseToExistingCertificate_def
  internal_getCertificatePrice_def internal_exists_def internal_mint_def internal_update_def
  internal_processCertificatePayment_def internal_processPayment_def send_if_def

lemmas demo_call_defs = payable_defs demo_env_def demo_ctx_def UINT256_RANGE_def Let_def

section \<open>Replay of payment identifiers\<close>







section \<open>One certificate per principal\<close>







lemmas demo_minted_fields_Suc = demo_minted_fields [unfolded One_nat_def]

section \<open>Items of a record\<close>

text \<open>
  Claim C3 does not hold of the code. The validation loop of
  \<open>addMultipleCoursesToCertificate\<close> compares every course of the batch with the membership
  index as it was before the call, so a batch that names the same course twice passes the
  check and the course is appended twice. Here the learner, whose record holds course 5,
  submits the batch \<open>[9, 9]\<close> with a fresh payment identifier and the fee for two courses.
\<close>

theorem batch_appends_repeated_course_twice:
  "succeeds demo_env (demo_ctx 1000 200000000000000)
     (AddMultipleCoursesToCertificate [9, 9] ''QmBatch'' 12) demo_minted \<and>
   completedCourses (certificates
     (transact demo_env (demo_ctx 1000 200000000000000)
        (AddMultipleCoursesToCertificate [9, 9] ''QmBatch'' 12) demo_minted) 1) = [5, 9, 9] \<and>
   totalCoursesCompleted (certificates
     (transact demo_env (demo_ctx 1000 200000000000000)
        (AddMultipleCoursesToCertificate [9, 9] ''QmBatch'' 12) demo_minted) 1) = 3"
  by (simp add: succeeds_def transact_def demo_minted_fields_Suc demo_call_defs)

section \<open>Price of an append\<close>

text \<open>
  Claim C6 does not hold of the code. \<open>_addCourseToExistingCertificate\<close> takes its price
  from \<open>_getCertificatePrice\<close>, whose fallback is \<open>defaultCertificateFee\<close> (0.001 ether),
  not \<open>defaultCourseAdditionFee\<close> (0.0001 ether). The learner of scenario A appends
  course 7, which has no price override, attaching 0.0001 ether: the call reverts.
\<close>

theorem append_without_override_costs_mint_default:
  "courseCertificatePrices demo_minted 7 = 0 \<and>
   defaultCourseAdditionFee demo_minted = 100000000000000 \<and>
   internal_getCertificatePrice demo_minted 7 = 1000000000000000 \<and>
   mintOrUpdateCertificate demo_env (demo_ctx 1000 100000000000000) 7 ''Alice'' ''QmSecond'' 12
     ''/verify'' demo_minted = Inl InsufficientPayment"
  by (simp add: demo_minted_fields_Suc demo_call_defs)




section \<open>Atomic batch\<close>

text \<open>
  Claim C7. In a reachable state, a batch that contains a course which the caller has not
  completed (the completion check does not answer true) or which is already among the items
  of the caller's record makes the whole call revert; the storage is as before the call,
  so no item is appended, the item count is unchanged and the payment identifier is not
  consumed.
\<close>

theorem batch_is_atomic:
  "reachable s \<and> x \<in> set courseIds \<and>
   (isCourseCompleted e (msg_sender c) x \<noteq> Some True \<or>
    x \<in> set (completedCourses (certificates s (userCertificates s (msg_sender c)))))
   \<longrightarrow>
     (\<exists>err. addMultipleCoursesToCertificate e c courseIds cid receipt s = Inl err) \<and>
     transact e c (AddMultipleCoursesToCertificate courseIds cid receipt) s = s \<and>
     completedCourses (certificates
       (transact e c (AddMultipleCoursesToCertificate courseIds cid receipt) s) t)
         = completedCourses (certificates s t) \<and>
     totalCoursesCompleted (certificates
       (transact e c (AddMultipleCoursesToCertificate courseIds cid receipt) s) t)
         = totalCoursesCompleted (certificates s t) \<and>
     usedPaymentHashes (transact e c (AddMultipleCoursesToCertificate courseIds cid receipt) s)
       receipt = usedPaymentHashes s receipt"
proof
  assume a: "reachable s \<and> x \<in> set courseIds \<and>
   (isCourseCompleted e (msg_sender c) x \<noteq> Some True \<or>
    x \<in> set (completedCourses (certificates s (userCertificates s (msg_sender c)))))"
  then have inv: "ledger_inv s" by (simp add: reachable_inv)
  have fails: "\<exists>err. addMultipleCoursesToCertificate e c courseIds cid receipt s = Inl err"
  proof (cases "addMultipleCoursesToCertificate e c courseIds cid receipt s")
    case (Inl err)
    then show ?thesis by simp
  next
    case (Inr r)
    obtain s' legs where r: "r = (s', legs)" by (cases r) auto
    from Inr r have ok: "addMultipleCoursesToCertificate e c courseIds cid receipt s
        = Inr (s', legs)" by simp
    let ?tid = "userCertificates s (msg_sender c)"
    from addMultiple_Inr(9) [OF ok] a
    have completed: "isCourseCompleted e (msg_sender c) x = Some True"
      and fresh: "\<not> certificateCourseExists s ?tid x" by blast+
    from inv addMultiple_Inr(6) [OF ok] have "internal_exists s ?tid"
      by (simp add: ledger_inv_def)
    moreover from inv have "certificateCourseExists s ?tid x \<longleftrightarrow>
        internal_exists s ?tid \<and> x \<in> set (completedCourses (certificates s ?tid))"
      by (simp add: ledger_inv_def)
    ultimately have "x \<notin> set (completedCourses (certificates s ?tid))"
      using fresh by simp
    with a completed show ?thesis by simp
  qed
  then have same: "transact e c (AddMultipleCoursesToCertificate courseIds cid receipt) s = s"
    by (auto simp: transact_def)
  from fails same show
    "(\<exists>err. addMultipleCoursesToCertificate e c courseIds cid receipt s = Inl err) \<and>
     transact e c (AddMultipleCoursesToCertificate courseIds cid receipt) s = s \<and>
     completedCourses (certificates
       (transact e c (AddMultipleCoursesToCertificate courseIds cid receipt) s) t)
         = completedCourses (certificates s t) \<and>
     totalCoursesCompleted (certificates
       (transact e c (AddMultipleCoursesToCertificate courseIds cid receipt) s) t)
         = totalCoursesCompleted (certificates s t) \<and>
     usedPaymentHashes (transact e c (AddMultipleCoursesToCertificate courseIds cid receipt) s)
       receipt = usedPaymentHashes s receipt"
    by simp
qed

text \<open>Scenario E: the batch \<open>[9, 10]\<close>, where course 10 was never completed.\<close>

theorem batch_is_atomic_witness:
  "reachable demo_minted \<and>
   isCourseCompleted demo_env 1000 10 = Some False \<and>
   addMultipleCoursesToCertificate demo_env (demo_ctx 1000 200000000000000) [9, 10] ''QmBatch'' 12
     demo_minted = Inl CourseNotCompleted \<and>
   transact demo_env (demo_ctx 1000 200000000000000)
     (AddMultipleCoursesToCertificate [9, 10] ''QmBatch'' 12) demo_minted = demo_minted \<and>
   addMultipleCoursesToCertificate demo_env (demo_ctx 1000 200000000000000) [9, 5] ''QmBatch'' 12
     demo_minted = Inl CourseAlreadyInCertificate \<and>
   transact demo_env (demo_ctx 1000 200000000000000)
     (AddMultipleCoursesToCertificate [9, 5] ''QmBatch'' 12) demo_minted = demo_minted"
proof -
  let ?c = "demo_ctx 1000 200000000000000"
  have nc: "isCourseCompleted demo_env 1000 10 = Some False" by (simp add: demo_env_def)
  have h1: "reachable demo_minted \<and> 10 \<in> set [9, 10::nat] \<and>
     (isCourseCompleted demo_env (msg_sender ?c) 10 \<noteq> Some True \<or>
      10 \<in> set (completedCourses (certificates demo_minted
                 (userCertificates demo_minted (msg_sender ?c)))))"
    using demo_minted_reachable by (simp add: demo_env_def)
  have h2: "reachable demo_minted \<and> 5 \<in> set [9, 5::nat] \<and>
     (isCourseCompleted demo_env (msg_sender ?c) 5 \<noteq> Some True \<or>
      5 \<in> set (completedCourses (certificates demo_minted
                 (userCertificates demo_minted (msg_sender ?c)))))"
    using demo_minted_reachable by (simp add: demo_ctx_def demo_minted_fields_Suc)
  note m1 = batch_is_atomic [of demo_minted 10 "[9, 10]" demo_env ?c "''QmBatch''" 12 0,
      THEN mp, OF h1]
  note m2 = batch_is_atomic [of demo_minted 5 "[9, 5]" demo_env ?c "''QmBatch''" 12 0,
      THEN mp, OF h2]
  have e1: "addMultipleCoursesToCertificate demo_env ?c [9, 10] ''QmBatch'' 12 demo_minted
      = Inl CourseNotCompleted"
    by (simp add: demo_minted_fields_Suc demo_call_defs)
  have e2: "addMultipleCoursesToCertificate demo_env ?c [9, 5] ''QmBatch'' 12 demo_minted
      = Inl CourseAlreadyInCertificate"
    by (simp add: demo_minted_fields_Suc demo_call_defs)
  from m1 have t1: "transact demo_env ?c (AddMultipleCoursesToCertificate [9, 10] ''QmBatch'' 12)
      demo_minted = demo_minted" by (elim conjE)
  from m2 have t2: "transact demo_env ?c (AddMultipleCoursesToCertificate [9, 5] ''QmBatch'' 12)
      demo_minted = demo_minted" by (elim conjE)
  from demo_minted_reachable nc e1 t1 e2 t2 show ?thesis by (intro conjI)
qed




section \<open>Content refresh\<close>







section \<open>Ownership and identifiers\<close>









text \<open>
  Claim C10. The first identifier is 1; only a mint (a successful
  \<open>mintOrUpdateCertificate\<close> by a principal without a record) moves the next identifier,
  by exactly one, and the record it creates carries the identifier that was next; every
  other transaction leaves the next identifier unchanged. So \<open>_exists(t)\<close> holds exactly
  for \<open>1 \<le> t < _nextTokenId\<close>, never for 0, and in every reachable state
  \<open>getUserCertificate(user)\<close> is 0 exactly when no existing record has \<open>user\<close> as owner.
\<close>

theorem token_ids_start_at_one:
  "(constructor deployer cf pt lic pw route pname = Inr s0 \<longrightarrow> internal_nextTokenId s0 = 1) \<and>
   (exec e c cl s = Inr (s', legs) \<longrightarrow>
      (if is_mintOrUpdate cl \<and> userCertificates s (msg_sender c) = 0
       then internal_nextTokenId s' = internal_nextTokenId s + 1 \<and>
            userCertificates s' (msg_sender c) = internal_nextTokenId s \<and>
            tokenId (certificates s' (internal_nextTokenId s)) = internal_nextTokenId s
       else internal_nextTokenId s' = internal_nextTokenId s)) \<and>
   (internal_exists s t \<longleftrightarrow> 1 \<le> t \<and> t < internal_nextTokenId s) \<and>
   \<not> internal_exists s 0 \<and>
   (reachable s \<longrightarrow>
      1 \<le> internal_nextTokenId s \<and>
      (getUserCertificate s user = 0 \<longleftrightarrow>
         \<not> (\<exists>t. internal_exists s t \<and> recipientAddress (certificates s t) = user)) \<and>
      (getUserCertificate s user \<noteq> 0 \<longrightarrow>
         internal_exists s (getUserCertificate s user) \<and>
         recipientAddress (certificates s (getUserCertificate s user)) = user))"
proof (intro conjI impI)
  assume "constructor deployer cf pt lic pw route pname = Inr s0"
  then show "internal_nextTokenId s0 = 1" by (rule constructor_inv(3))
next
  assume ok: "exec e c cl s = Inr (s', legs)"
  from exec_next [OF ok]
  show "if is_mintOrUpdate cl \<and> userCertificates s (msg_sender c) = 0
       then internal_nextTokenId s' = internal_nextTokenId s + 1 \<and>
            userCertificates s' (msg_sender c) = internal_nextTokenId s \<and>
            tokenId (certificates s' (internal_nextTokenId s)) = internal_nextTokenId s
       else internal_nextTokenId s' = internal_nextTokenId s"
    by (simp split: if_splits)
next
  show "internal_exists s t \<longleftrightarrow> 1 \<le> t \<and> t < internal_nextTokenId s"
    by (auto simp: internal_exists_def)
  show "\<not> internal_exists s 0" by (simp add: internal_exists_def)
next
  assume r: "reachable s"
  then have inv: "ledger_inv s" by (simp add: reachable_inv)
  then show "1 \<le> internal_nextTokenId s" by (simp add: ledger_inv_def)
  from inv have fwd: "\<And>t. internal_exists s t \<Longrightarrow>
      userCertificates s (recipientAddress (certificates s t)) = t"
    and bwd: "\<And>u. userCertificates s u \<noteq> 0 \<Longrightarrow>
      internal_exists s (userCertificates s u) \<and>
      recipientAddress (certificates s (userCertificates s u)) = u"
    by (simp_all add: ledger_inv_def)
  show "getUserCertificate s user = 0 \<longleftrightarrow>
         \<not> (\<exists>t. internal_exists s t \<and> recipientAddress (certificates s t) = user)"
  proof
    assume z: "getUserCertificate s user = 0"
    show "\<not> (\<exists>t. internal_exists s t \<and> recipientAddress (certificates s t) = user)"
    proof
      assume "\<exists>t. internal_exists s t \<and> recipientAddress (certificates s t) = user"
      then obtain t where t: "internal_exists s t"
        and u: "recipientAddress (certificates s t) = user" by blast
      from fwd [OF t] u have "userCertificates s user = t" by simp
      with z have "t = 0" by (simp add: getUserCertificate_def)
      with t show False by (simp add: internal_exists_def)
    qed
  next
    assume n: "\<not> (\<exists>t. internal_exists s t \<and> recipientAddress (certificates s t) = user)"
    show "getUserCertificate s user = 0"
    proof (rule ccontr)
      assume "getUserCertificate s user \<noteq> 0"
      then have "userCertificates s user \<noteq> 0" by (simp add: getUserCertificate_def)
      from bwd [OF this] n show False by blast
    qed
  qed
  assume "getUserCertificate s user \<noteq> 0"
  then have "userCertificates s user \<noteq> 0" by (simp add: getUserCertificate_def)
  from bwd [OF this]
  show "internal_exists s (getUserCertificate s user)"
    and "recipientAddress (certificates s (getUserCertificate s user)) = user"
    by (simp_all add: getUserCertificate_def)
qed

theorem token_ids_start_at_one_witness:
  "internal_nextTokenId demo_deployed = 1 \<and>
   internal_nextTokenId demo_minted = 2 \<and>
   tokenId (certificates demo_minted 1) = 1 \<and>
   getUserCertificate demo_minted 1000 = 1 \<and>
   internal_exists demo_minted (getUserCertificate demo_minted 1000) \<and>
   getUserCertificate demo_minted 2000 = 0 \<and>
   getUserCertificate demo_deployed 1000 = 0"
proof -
  let ?c1 = "demo_ctx 1000 1000000000000000"
  let ?mint = "MintOrUpdateCertificate 5 ''Alice'' ''QmFirst'' 11 ''/verify''"
  from demo_minted_exec obtain legs where
    mint: "exec demo_env ?c1 ?mint demo_deployed = Inr (demo_minted, legs)"
    by (elim exE) (rule that)
  note main = token_ids_start_at_one [of 100 101 102 103 200 "''/verify''" "''EduVerse Academy''"
      demo_deployed demo_env ?c1 ?mint demo_deployed demo_minted legs 1 1000]
  note after = token_ids_start_at_one [of 100 101 102 103 200 "''/verify''" "''EduVerse Academy''"
      demo_deployed demo_env ?c1 ?mint demo_minted demo_minted legs 1 1000]
  from main demo_deployed_constructed have n0: "internal_nextTokenId demo_deployed = 1"
    by blast
  from main demo_deployed_reachable
  have "getUserCertificate demo_deployed 1000 = 0 \<longleftrightarrow>
      \<not> (\<exists>t. internal_exists demo_deployed t \<and>
               recipientAddress (certificates demo_deployed t) = 1000)"
    by blast
  moreover have "\<not> (\<exists>t. internal_exists demo_deployed t \<and>
               recipientAddress (certificates demo_deployed t) = 1000)"
    by (simp add: internal_exists_def n0)
  ultimately have g0: "getUserCertificate demo_deployed 1000 = 0" by blast
  then have fresh: "is_mintOrUpdate ?mint \<and> userCertificates demo_deployed (msg_sender ?c1) = 0"
    by (simp add: getUserCertificate_def demo_ctx_def)
  from main mint fresh
  have n1: "internal_nextTokenId demo_minted = internal_nextTokenId demo_deployed + 1"
    and u1: "userCertificates demo_minted (msg_sender ?c1) = internal_nextTokenId demo_deployed"
    and t1: "tokenId (certificates demo_minted (internal_nextTokenId demo_deployed))
               = internal_nextTokenId demo_deployed"
    by simp_all
  from n1 n0 have n2: "internal_nextTokenId demo_minted = 2" by simp
  from t1 n0 have t2: "tokenId (certificates demo_minted 1) = 1" by simp
  from u1 n0 have g1: "getUserCertificate demo_minted 1000 = 1"
    by (simp add: getUserCertificate_def demo_ctx_def)
  then have "getUserCertificate demo_minted 1000 \<noteq> 0" by simp
  with after demo_minted_reachable
  have e1: "internal_exists demo_minted (getUserCertificate demo_minted 1000)" by blast
  have g2: "getUserCertificate demo_minted 2000 = 0"
    by (simp add: getUserCertificate_def demo_minted_defs)
  from n0 n2 t2 g1 e1 g2 g0 show ?thesis by (intro conjI)
qed


end
